theory Spec2Isabelle
  imports
    Main
    "HOL-Library.Char_ord"
    "HOL-Library.List_Lexorder"
    "HOL-Library.Mapping"
    "HOL-Library.AList_Mapping"
    "HOL-Library.Multiset"
begin

section \<open>Ordered deletion of manifests and namespace clearing (pkg/operator/client/manifest_delete.go)\<close>

text \<open>
  The embedding follows the Go source function by function.

  \<^item> A Go \<^verbatim>\<open>map[string]T\<close> is a \<open>(string, T) mapping\<close>; reading a missing key gives the
    zero value, which is \<open>Mapping.lookup_default\<close>; the two-valued read \<^verbatim>\<open>_, ok := m[k]\<close>
    is \<open>hasKey\<close>; \<^verbatim>\<open>len(m) == 0\<close> is \<open>Mapping.is_empty\<close>.
  \<^item> A Go pointer that may be nil is an \<open>option\<close>; reading through a nil pointer is the
    run-time panic \<open>Panic NilPointerDereference\<close> of the result type \<open>'a go\<close>.
  \<^item> A Go \<^verbatim>\<open>error\<close> result is an \<open>error option\<close> (\<open>None\<close> is \<^verbatim>\<open>nil\<close>), or the left side
    of a sum when the function returns either an error or its values.
  \<^item> The cluster is a state \<open>'w\<close> threaded through the calls of the dynamic client and of
    the kubectl applier, both taken as parameters; every such call and every
    \<^verbatim>\<open>time.Sleep\<close> is appended to a trace. Calls of the logger are not modelled: they do
    not change the control flow.
  \<^item> Functions of the Kubernetes libraries (YAML decoding, conversion from and to
    unstructured objects, label selectors) are parameters.
  \<^item> \<^verbatim>\<open>sort.Strings\<close> is \<open>sort\<close> on the bytewise lexicographic order of strings.
  \<^item> In \<^verbatim>\<open>buildDeleteKindOrderedNamespaceResources\<close> every resource holds \<^verbatim>\<open>&u\<close>, the
    address of the variable of the loop over a listing. The variable is one for the whole
    loop (Go before version 1.22); when the loop ends it holds the last item of the
    listing, and nothing reads through the pointers before. The model stores in the
    resource the object that its pointer yields when it is read: the last item of the
    listing.
\<close>

subsection \<open>Data model\<close>

type_synonym KindSortOrder = "string list"

record KindOrder =
  PreOrder :: KindSortOrder
  PostOrder :: KindSortOrder

definition defaultKindDeleteOrder :: KindOrder where
  "defaultKindDeleteOrder = \<lparr>
     PreOrder = [
       ''CustomResource'',
       ''APIService'',
       ''Ingress'',
       ''Service'',
       ''CronJob'',
       ''Job'',
       ''StatefulSet'',
       ''HorizontalPodAutoscaler'',
       ''Deployment'',
       ''ReplicaSet'',
       ''ReplicationController'',
       ''Pod'',
       ''DaemonSet'',
       ''RoleBindingList'',
       ''RoleBinding'',
       ''RoleList'',
       ''Role'',
       ''ClusterRoleBindingList'',
       ''ClusterRoleBinding'',
       ''ClusterRoleList'',
       ''ClusterRole''],
     PostOrder = [
       ''CustomResourceDefinition'',
       ''PersistentVolumeClaim'',
       ''PersistentVolume'',
       ''StorageClass'',
       ''ConfigMap'',
       ''SecretList'',
       ''Secret'',
       ''ServiceAccount'',
       ''PodDisruptionBudget'',
       ''PodSecurityPolicy'',
       ''LimitRange'',
       ''ResourceQuota'']\<rparr>"

record GroupVersionResource =
  gvrGroup :: string
  gvrVersion :: string
  gvrResource :: string

record GroupVersionKind =
  Group :: string
  Version :: string
  Kind :: string

text \<open>
  An unstructured object, by the accessors the code calls on it: \<^verbatim>\<open>GetKind\<close>,
  \<^verbatim>\<open>GetName\<close>, \<^verbatim>\<open>GetNamespace\<close>/\<^verbatim>\<open>SetNamespace\<close>, \<^verbatim>\<open>GetLabels\<close>, \<^verbatim>\<open>GetAnnotations\<close> and
  \<^verbatim>\<open>GetDeletionTimestamp\<close>. An absent string field reads as the empty string.
\<close>

record unstructured =
  GetKind :: string
  GetName :: string
  GetNamespace :: string
  GetLabels :: "(string, string) mapping"
  GetAnnotations :: "(string, string) mapping"
  GetDeletionTimestamp :: "string option"

definition SetNamespace :: "string \<Rightarrow> unstructured \<Rightarrow> unstructured" where
  "SetNamespace ns u = u\<lparr>GetNamespace := ns\<rparr>"

record resource =
  Wait :: bool
  Manifest :: string
  GVR :: GroupVersionResource
  GVK :: "GroupVersionKind option"
  Unstructured :: "unstructured option"

text \<open>The part of a typed CustomResourceDefinition that the code reads.\<close>

record CustomResourceDefinition =
  specGroup :: string
  specNamesKind :: string
  specVersions :: "string list"

datatype error =
  External string
  | Wrap error string
  | Errorf string

datatype panic = NilPointerDereference

datatype 'a go = Panic panic | Return 'a

type_synonym resourceMap = "(string, resource list) mapping"

definition hasKey :: "('k, 'v) mapping \<Rightarrow> 'k \<Rightarrow> bool" where
  "hasKey m k = (Mapping.lookup m k \<noteq> None)"

abbreviation bucket :: "resourceMap \<Rightarrow> string \<Rightarrow> resource list" where
  "bucket m k \<equiv> Mapping.lookup_default [] m k"

subsection \<open>Library functions taken as parameters\<close>

text \<open>
  \<open>yamlDecode\<close> is \<^verbatim>\<open>NewYAMLOrJSONDecoder(...).Decode\<close> (the raw bytes or an error),
  \<open>serializerDecode\<close> is \<^verbatim>\<open>NewDecodingSerializer(...).Decode\<close>, whose error the
  source overwrites without reading it, \<open>ToUnstructured\<close> and \<open>FromUnstructured\<close> are the
  two directions of \<^verbatim>\<open>runtime.DefaultUnstructuredConverter\<close>. The source passes to
  \<open>ToUnstructured\<close> whatever object the serializer returned, also the nil object of a
  failed decoding, on which the converter panics: the result of \<open>ToUnstructured\<close> is an
  error, an object or a panic.
\<close>

record 'o runtime =
  yamlDecode :: "string \<Rightarrow> error + string"
  serializerDecode :: "string \<Rightarrow> 'o \<times> GroupVersionKind option"
  ToUnstructured :: "'o \<Rightarrow> (error + unstructured) go"
  FromUnstructured :: "unstructured \<Rightarrow> error + CustomResourceDefinition"

text \<open>
  \<open>LabelSelectorAsSelector\<close> converts a label selector to a selector or fails; a
  selector is the predicate \<^verbatim>\<open>Matches\<close> on a label set. \<open>GroupVersionKindOf\<close> is
  \<^verbatim>\<open>u.GetObjectKind().GroupVersionKind()\<close>.
\<close>

record 'ls meta =
  LabelSelectorAsSelector :: "'ls \<Rightarrow> error + ((string, string) mapping \<Rightarrow> bool)"
  GroupVersionKindOf :: "unstructured \<Rightarrow> GroupVersionKind"

datatype event =
  EvList GroupVersionResource string
  | EvDelete GroupVersionResource string string "error option"
  | EvRemove string string bool "error option"
  | EvSleep nat

record 'w state =
  world :: 'w
  trace :: "event list"

text \<open>
  The dynamic client: \<^verbatim>\<open>Resource(gvr).Namespace(ns).List\<close> returns a list (or nil) and an
  error; \<^verbatim>\<open>Resource(gvr).Namespace(ns).Delete(name)\<close> returns an error.
\<close>

record 'w dynamic =
  dynList :: "GroupVersionResource \<Rightarrow> string \<Rightarrow> 'w \<Rightarrow> (unstructured list option \<times> error option) \<times> 'w"
  dynDelete :: "GroupVersionResource \<Rightarrow> string \<Rightarrow> string \<Rightarrow> 'w \<Rightarrow> error option \<times> 'w"

text \<open>The kubectl applier: \<^verbatim>\<open>Remove(namespace, manifest, wait)\<close> returns stdout, stderr and an error.\<close>

record 'w kubectl =
  Remove :: "string \<Rightarrow> string \<Rightarrow> bool \<Rightarrow> 'w \<Rightarrow> (string \<times> string \<times> error option) \<times> 'w"

definition emit :: "event \<Rightarrow> 'w state \<Rightarrow> 'w state" where
  "emit e s = s\<lparr>trace := trace s @ [e]\<rparr>"

definition Sleep :: "nat \<Rightarrow> 'w state \<Rightarrow> 'w state" where
  "Sleep seconds s = emit (EvSleep seconds) s"

subsection \<open>Kind order\<close>

definition initResourceKindOrderMap :: "KindOrder \<Rightarrow> resourceMap" where
  "initResourceKindOrderMap kindOrder =
     fold (\<lambda>resourceType m. Mapping.update resourceType [] m) (PostOrder kindOrder)
       (fold (\<lambda>resourceType m. Mapping.update resourceType [] m) (PreOrder kindOrder)
          Mapping.empty)"

definition getOrderedKinds :: "KindOrder \<Rightarrow> KindSortOrder \<Rightarrow> KindSortOrder" where
  "getOrderedKinds kindOrder defaultKinds =
     PreOrder kindOrder @ sort defaultKinds @ PostOrder kindOrder"

subsection \<open>Decoding\<close>

definition decodeToUnstructured ::
  "'o runtime \<Rightarrow> string \<Rightarrow>
   (unstructured option \<times> GroupVersionKind option \<times> error option) go" where
  "decodeToUnstructured rt manifest =
     (case yamlDecode rt manifest of
        Inl err \<Rightarrow> Return (None, None, Some (Wrap err ''error decoding yaml''))
      | Inr raw \<Rightarrow>
          (case serializerDecode rt raw of
             (obj, gvk) \<Rightarrow>
               (case ToUnstructured rt obj of
                  Panic p \<Rightarrow> Panic p
                | Return (Inl err) \<Rightarrow>
                    Return (None, None, Some (Wrap err ''error converting to unstructured''))
                | Return (Inr unstructuredMap) \<Rightarrow> Return (Some unstructuredMap, gvk, None))))"

text \<open>
  The loop of \<^verbatim>\<open>decodeManifests\<close> appends one resource for every manifest, in the order
  of the manifests.
\<close>

fun decodeManifests :: "'o runtime \<Rightarrow> string list \<Rightarrow> resource list go" where
  "decodeManifests rt [] = Return []"
| "decodeManifests rt (manifest # manifests) =
     (case decodeToUnstructured rt manifest of
        Panic p \<Rightarrow> Panic p
      | Return (obj, gvk, err) \<Rightarrow>
          (case decodeManifests rt manifests of
             Panic p \<Rightarrow> Panic p
           | Return resources \<Rightarrow>
               Return (\<lparr>Wait = False, Manifest = manifest,
                        GVR = \<lparr>gvrGroup = [], gvrVersion = [], gvrResource = []\<rparr>,
                        GVK = gvk, Unstructured = obj\<rparr> # resources)))"

subsection \<open>The index of custom resource definitions\<close>

definition buildGVKKey :: "string \<Rightarrow> string \<Rightarrow> string \<Rightarrow> string" where
  "buildGVKKey grp kind version = grp @ ''/'' @ kind @ ''/'' @ version"

fun buildCrdGVKMapFrom ::
  "'o runtime \<Rightarrow> resource list \<Rightarrow> (string, bool) mapping \<Rightarrow> (string, bool) mapping go" where
  "buildCrdGVKMapFrom rt [] crdGVKMap = Return crdGVKMap"
| "buildCrdGVKMapFrom rt (r # rs) crdGVKMap =
     (case GVK r of
        None \<Rightarrow> Panic NilPointerDereference
      | Some gvk \<Rightarrow>
          if Kind gvk = ''CustomResourceDefinition'' then
            (case Unstructured r of
               None \<Rightarrow> Panic NilPointerDereference
             | Some u \<Rightarrow>
                 (case FromUnstructured rt u of
                    Inl err \<Rightarrow> buildCrdGVKMapFrom rt rs crdGVKMap
                  | Inr crd \<Rightarrow>
                      buildCrdGVKMapFrom rt rs
                        (fold (\<lambda>version m.
                                 Mapping.update
                                   (buildGVKKey (specGroup crd) (specNamesKind crd) version) True m)
                           (specVersions crd) crdGVKMap)))
          else buildCrdGVKMapFrom rt rs crdGVKMap)"

definition buildCrdGVKMap :: "'o runtime \<Rightarrow> resource list \<Rightarrow> (string, bool) mapping go" where
  "buildCrdGVKMap rt resources = buildCrdGVKMapFrom rt resources Mapping.empty"

subsection \<open>Buckets and kind sequence of a batch of manifests\<close>

definition shouldResourceWaitForDeletion :: "unstructured option \<Rightarrow> bool \<Rightarrow> bool go" where
  "shouldResourceWaitForDeletion resource waitFlag =
     (case resource of
        None \<Rightarrow> Panic NilPointerDereference
      | Some u \<Rightarrow>
          if GetKind u = ''PersistentVolumeClaim'' then Return False else Return waitFlag)"

text \<open>
  The body of the loop of \<^verbatim>\<open>buildDeleteKindOrderedResources\<close>, on the pair of the
  bucket map and the list \<^verbatim>\<open>defaultOrder\<close>. \<^verbatim>\<open>SetNamespace\<close> writes through the pointer
  that the copy \<^verbatim>\<open>r\<close> holds; the copy stored in the map sees the write.
\<close>

definition appendTo :: "string \<Rightarrow> resource \<Rightarrow> resourceMap \<Rightarrow> resourceMap" where
  "appendTo k r m = Mapping.update k (bucket m k @ [r]) m"

definition deleteOrderStep ::
  "string \<Rightarrow> (string, bool) mapping \<Rightarrow> bool \<Rightarrow> resource \<Rightarrow>
   resourceMap \<times> string list \<Rightarrow> (resourceMap \<times> string list) go" where
  "deleteOrderStep defaultNS crdGVKMap waitFlag r0 acc =
     (case acc of (deleteOrderResourceMap, defaultOrder) \<Rightarrow>
       (case shouldResourceWaitForDeletion (Unstructured r0) waitFlag of
          Panic p \<Rightarrow> Panic p
        | Return w \<Rightarrow>
            (case Unstructured r0 of
               None \<Rightarrow> Panic NilPointerDereference
             | Some u0 \<Rightarrow>
                 (let u = (if GetNamespace u0 = [] then SetNamespace defaultNS u0 else u0);
                      r = r0\<lparr>Wait := w, Unstructured := Some u\<rparr>
                  in
                    (case GVK r of
                       None \<Rightarrow>
                         (if \<not> hasKey deleteOrderResourceMap []
                          then Return (appendTo [] r (Mapping.update [] [] deleteOrderResourceMap),
                                       defaultOrder @ [[]])
                          else Return (appendTo [] r deleteOrderResourceMap, defaultOrder))
                     | Some gvk \<Rightarrow>
                         (let crdGVK = buildGVKKey (Group gvk) (Kind gvk) (Version gvk) in
                            if hasKey crdGVKMap crdGVK then
                              (if hasKey deleteOrderResourceMap (Kind gvk)
                               then Return (appendTo (Kind gvk) r deleteOrderResourceMap, defaultOrder)
                               else Return (appendTo ''CustomResource'' r deleteOrderResourceMap,
                                            defaultOrder))
                            else
                              (if \<not> hasKey deleteOrderResourceMap (Kind gvk)
                               then Return (appendTo (Kind gvk) r
                                              (Mapping.update (Kind gvk) [] deleteOrderResourceMap),
                                            defaultOrder @ [Kind gvk])
                               else Return (appendTo (Kind gvk) r deleteOrderResourceMap,
                                            defaultOrder))))))))"

fun buildDeleteKindOrderedResourcesFrom ::
  "resource list \<Rightarrow> string \<Rightarrow> (string, bool) mapping \<Rightarrow> bool \<Rightarrow>
   resourceMap \<times> string list \<Rightarrow> (resourceMap \<times> string list) go" where
  "buildDeleteKindOrderedResourcesFrom [] defaultNS crdGVKMap waitFlag acc = Return acc"
| "buildDeleteKindOrderedResourcesFrom (r # rs) defaultNS crdGVKMap waitFlag acc =
     (case deleteOrderStep defaultNS crdGVKMap waitFlag r acc of
        Panic p \<Rightarrow> Panic p
      | Return acc' \<Rightarrow> buildDeleteKindOrderedResourcesFrom rs defaultNS crdGVKMap waitFlag acc')"

definition buildDeleteKindOrderedResources ::
  "KindOrder \<Rightarrow> resource list \<Rightarrow> string \<Rightarrow> (string, bool) mapping \<Rightarrow> bool \<Rightarrow>
   (resourceMap \<times> KindSortOrder) go" where
  "buildDeleteKindOrderedResources deleteKindOrder resources defaultNS crdGVKMap waitFlag =
     (case buildDeleteKindOrderedResourcesFrom resources defaultNS crdGVKMap waitFlag
             (initResourceKindOrderMap deleteKindOrder, []) of
        Panic p \<Rightarrow> Panic p
      | Return (deleteOrderResourceMap, defaultOrder) \<Rightarrow>
          Return (deleteOrderResourceMap, getOrderedKinds deleteKindOrder defaultOrder))"

subsection \<open>Deleting a batch of manifests\<close>

definition deleteManifestResource ::
  "resource \<Rightarrow> string \<Rightarrow> 'w kubectl \<Rightarrow> 'w state \<Rightarrow> unit go \<times> 'w state" where
  "deleteManifestResource resource targetNS kubernetesApplier s =
     (let remove = (\<lambda>namespace.
            case Remove kubernetesApplier namespace (Manifest resource) (Wait resource) (world s) of
              ((stdout, stderr, err), w') \<Rightarrow>
                (Return (),
                 \<lparr>world = w',
                  trace = trace s @ [EvRemove namespace (Manifest resource) (Wait resource) err]\<rparr>))
      in
        (case GVK resource of
           None \<Rightarrow> remove targetNS
         | Some gvk \<Rightarrow>
             (case Unstructured resource of
                None \<Rightarrow> (Panic NilPointerDereference, s)
              | Some u \<Rightarrow> remove (GetNamespace u))))"

fun deleteManifestResourcesOf ::
  "resource list \<Rightarrow> string \<Rightarrow> 'w kubectl \<Rightarrow> 'w state \<Rightarrow> unit go \<times> 'w state" where
  "deleteManifestResourcesOf [] targetNS kubernetesApplier s = (Return (), s)"
| "deleteManifestResourcesOf (r # rs) targetNS kubernetesApplier s =
     (case deleteManifestResource r targetNS kubernetesApplier s of
        (Panic p, s') \<Rightarrow> (Panic p, s')
      | (Return _, s') \<Rightarrow> deleteManifestResourcesOf rs targetNS kubernetesApplier s')"

fun deleteManifestKinds ::
  "resourceMap \<Rightarrow> KindSortOrder \<Rightarrow> string \<Rightarrow> 'w kubectl \<Rightarrow> 'w state \<Rightarrow> unit go \<times> 'w state" where
  "deleteManifestKinds deleteOrderResourceMap [] targetNS kubernetesApplier s = (Return (), s)"
| "deleteManifestKinds deleteOrderResourceMap (kind # kinds) targetNS kubernetesApplier s =
     (case deleteManifestResourcesOf (bucket deleteOrderResourceMap kind) targetNS
             kubernetesApplier s of
        (Panic p, s') \<Rightarrow> (Panic p, s')
      | (Return _, s') \<Rightarrow>
          deleteManifestKinds deleteOrderResourceMap kinds targetNS kubernetesApplier s')"

definition deleteManifestResources ::
  "'o runtime \<Rightarrow> string list \<Rightarrow> string \<Rightarrow> 'w kubectl \<Rightarrow> KindOrder \<Rightarrow> bool \<Rightarrow>
   'w state \<Rightarrow> unit go \<times> 'w state" where
  "deleteManifestResources rt manifests targetNS kubernetesApplier kindDeleteOrder waitFlag s =
     (case decodeManifests rt manifests of
        Panic p \<Rightarrow> (Panic p, s)
      | Return resources \<Rightarrow>
          (case buildCrdGVKMap rt resources of
             Panic p \<Rightarrow> (Panic p, s)
           | Return crdGVKMap \<Rightarrow>
               (case buildDeleteKindOrderedResources kindDeleteOrder resources targetNS crdGVKMap
                       waitFlag of
                  Panic p \<Rightarrow> (Panic p, s)
                | Return (deleteOrderResourceMap, deleteOrderedKinds) \<Rightarrow>
                    deleteManifestKinds deleteOrderResourceMap deleteOrderedKinds targetNS
                      kubernetesApplier s)))"

subsection \<open>Listing the objects of an application in a namespace\<close>

text \<open>
  Lines 326 to 340: the filter of restore mode on one listed object. \<open>Inr True\<close> lets the
  object through, \<open>Inr False\<close> is \<^verbatim>\<open>continue\<close>, \<open>Inl\<close> is the early return of the error.
\<close>

definition restoreFilter ::
  "'ls meta \<Rightarrow> bool \<Rightarrow> 'ls option \<Rightarrow> unstructured \<Rightarrow> error + bool" where
  "restoreFilter mt isRestore restoreLabelSelector u =
     (if isRestore then
        (let labels = GetLabels u in
           if Mapping.lookup labels ''velero.io/exclude-from-backup'' = Some ''true'' then Inr False
           else
             (case restoreLabelSelector of
                None \<Rightarrow> Inr True
              | Some ls \<Rightarrow>
                  (case LabelSelectorAsSelector mt ls of
                     Inl err \<Rightarrow> Inl (Wrap err ''failed to convert label selector to a selector'')
                   | Inr sel \<Rightarrow> if \<not> sel labels then Inr False else Inr True)))
      else Inr True)"

text \<open>
  Lines 342 to 364: an object that passed the filter is added when the application owns
  it. The tests, the kind and the \<^verbatim>\<open>GVK\<close> are those of the object \<open>u\<close> of the iteration;
  the field \<^verbatim>\<open>Unstructured\<close> is \<^verbatim>\<open>&u\<close>, which yields \<open>loopVar\<close>, the value of the loop
  variable after the loop.
\<close>

definition addOwned ::
  "'ls meta \<Rightarrow> string \<Rightarrow> GroupVersionResource \<Rightarrow> unstructured \<Rightarrow> unstructured \<Rightarrow>
   resourceMap \<times> KindSortOrder \<Rightarrow> resourceMap \<times> KindSortOrder" where
  "addOwned mt appSlug gvr loopVar u acc =
     (case acc of (deleteOrdererResourceMap, defaultKindOrder) \<Rightarrow>
        if Mapping.lookup_default [] (GetAnnotations u) ''kots.io/app-slug'' = appSlug then
          (if GetDeletionTimestamp u \<noteq> None then (deleteOrdererResourceMap, defaultKindOrder)
           else
             (let gvk = GroupVersionKindOf mt u;
                  r = \<lparr>Wait = False, Manifest = [], GVR = gvr, GVK = Some gvk,
                       Unstructured = Some loopVar\<rparr>
              in
                if \<not> hasKey deleteOrdererResourceMap (GetKind u)
                then (appendTo (GetKind u) r (Mapping.update (GetKind u) [] deleteOrdererResourceMap),
                      defaultKindOrder @ [GetKind u])
                else (appendTo (GetKind u) r deleteOrdererResourceMap, defaultKindOrder)))
        else (deleteOrdererResourceMap, defaultKindOrder))"

fun listedItems ::
  "'ls meta \<Rightarrow> string \<Rightarrow> bool \<Rightarrow> 'ls option \<Rightarrow> GroupVersionResource \<Rightarrow> unstructured \<Rightarrow>
   unstructured list \<Rightarrow> resourceMap \<times> KindSortOrder \<Rightarrow> error + resourceMap \<times> KindSortOrder" where
  "listedItems mt appSlug isRestore restoreLabelSelector gvr loopVar [] acc = Inr acc"
| "listedItems mt appSlug isRestore restoreLabelSelector gvr loopVar (u # us) acc =
     (case restoreFilter mt isRestore restoreLabelSelector u of
        Inl err \<Rightarrow> Inl err
      | Inr False \<Rightarrow> listedItems mt appSlug isRestore restoreLabelSelector gvr loopVar us acc
      | Inr True \<Rightarrow>
          listedItems mt appSlug isRestore restoreLabelSelector gvr loopVar us
            (addOwned mt appSlug gvr loopVar u acc))"

text \<open>
  The loop over the resource types. The variable of the loop over the items of a
  listing ends as the last item; a listing without items adds nothing.
\<close>

fun listedGVRs ::
  "'w dynamic \<Rightarrow> 'ls meta \<Rightarrow> GroupVersionResource list \<Rightarrow> string \<Rightarrow> string \<Rightarrow> bool \<Rightarrow>
   'ls option \<Rightarrow> resourceMap \<times> KindSortOrder \<Rightarrow> 'w state \<Rightarrow>
   (error + resourceMap \<times> KindSortOrder) \<times> 'w state" where
  "listedGVRs dyn mt [] appSlug namespace isRestore restoreLabelSelector acc s = (Inr acc, s)"
| "listedGVRs dyn mt (gvr # gvrs) appSlug namespace isRestore restoreLabelSelector acc s =
     (case dynList dyn gvr namespace (world s) of
        ((unstructuredList, err), w') \<Rightarrow>
          (let s' = \<lparr>world = w', trace = trace s @ [EvList gvr namespace]\<rparr> in
             (case unstructuredList of
                None \<Rightarrow>
                  listedGVRs dyn mt gvrs appSlug namespace isRestore restoreLabelSelector acc s'
              | Some [] \<Rightarrow>
                  listedGVRs dyn mt gvrs appSlug namespace isRestore restoreLabelSelector acc s'
              | Some (item # items) \<Rightarrow>
                  (case listedItems mt appSlug isRestore restoreLabelSelector gvr
                          (last (item # items)) (item # items) acc of
                     Inl e \<Rightarrow> (Inl e, s')
                   | Inr acc' \<Rightarrow>
                       listedGVRs dyn mt gvrs appSlug namespace isRestore restoreLabelSelector
                         acc' s'))))"

definition buildDeleteKindOrderedNamespaceResources ::
  "'w dynamic \<Rightarrow> 'ls meta \<Rightarrow> GroupVersionResource list \<Rightarrow> string \<Rightarrow> string \<Rightarrow> bool \<Rightarrow>
   'ls option \<Rightarrow> KindOrder \<Rightarrow> 'w state \<Rightarrow> (error + resourceMap \<times> KindSortOrder) \<times> 'w state" where
  "buildDeleteKindOrderedNamespaceResources dyn mt gvrs appSlug namespace isRestore
     restoreLabelSelector deleteKindOrder s =
     (case listedGVRs dyn mt gvrs appSlug namespace isRestore restoreLabelSelector
             (initResourceKindOrderMap deleteKindOrder, []) s of
        (Inl err, s') \<Rightarrow> (Inl err, s')
      | (Inr (deleteOrdererResourceMap, defaultKindOrder), s') \<Rightarrow>
          (Inr (deleteOrdererResourceMap, getOrderedKinds deleteKindOrder defaultKindOrder), s'))"

subsection \<open>Deleting the listed objects\<close>

fun clearResourcesOf ::
  "'w dynamic \<Rightarrow> string \<Rightarrow> resource list \<Rightarrow> 'w state \<Rightarrow> error option go \<times> 'w state" where
  "clearResourcesOf dyn namespace [] s = (Return None, s)"
| "clearResourcesOf dyn namespace (r # rs) s =
     (case Unstructured r of
        None \<Rightarrow> (Panic NilPointerDereference, s)
      | Some u \<Rightarrow>
          (case dynDelete dyn (GVR r) namespace (GetName u) (world s) of
             (err, w') \<Rightarrow>
               (let s' = \<lparr>world = w',
                          trace = trace s @ [EvDelete (GVR r) namespace (GetName u) err]\<rparr>
                in
                  (case err of
                     Some e \<Rightarrow> (Return (Some e), s')
                   | None \<Rightarrow> clearResourcesOf dyn namespace rs s'))))"

fun clearNamespacedResources ::
  "'w dynamic \<Rightarrow> string \<Rightarrow> resourceMap \<Rightarrow> KindSortOrder \<Rightarrow> 'w state \<Rightarrow>
   error option go \<times> 'w state" where
  "clearNamespacedResources dyn namespace resourcesMap [] s = (Return None, s)"
| "clearNamespacedResources dyn namespace resourcesMap (kind # kinds) s =
     (case clearResourcesOf dyn namespace (bucket resourcesMap kind) s of
        (Return None, s') \<Rightarrow> clearNamespacedResources dyn namespace resourcesMap kinds s'
      | (Return (Some e), s') \<Rightarrow> (Return (Some e), s')
      | (Panic p, s') \<Rightarrow> (Panic p, s'))"

subsection \<open>Clearing namespaces\<close>

definition skip :: "string list" where
  "skip = [
     ''/v1/bindings'',
     ''/v1/events'',
     ''extensions/v1beta1/replicationcontrollers'',
     ''apps/v1/controllerrevisions'',
     ''authentication.k8s.io/v1/tokenreviews'',
     ''authorization.k8s.io/v1/localsubjectaccessreviews'',
     ''authorization.k8s.io/v1/subjectaccessreviews'',
     ''authorization.k8s.io/v1/selfsubjectaccessreviews'',
     ''authorization.k8s.io/v1/selfsubjectrulesreviews'']"

definition deletionGVRsOf :: "GroupVersionResource list \<Rightarrow> GroupVersionResource list" where
  "deletionGVRsOf gvrs =
     filter (\<lambda>gvr. gvrGroup gvr @ ''/'' @ gvrVersion gvr @ ''/'' @ gvrResource gvr \<notin> set skip) gvrs"

definition failedToClear :: "string \<Rightarrow> string \<Rightarrow> error" where
  "failedToClear appSlug namespace =
     Errorf (''Failed to clear app '' @ appSlug @ '' from namespace '' @ namespace @ [CHR 0x0A])"

text \<open>
  The loop \<^verbatim>\<open>for i := 60; i >= 0; i--\<close> of one namespace. \<open>Return None\<close>: the loop was left
  (by \<^verbatim>\<open>break\<close> or by its condition) and \<^verbatim>\<open>clearNamespaces\<close> goes on; \<open>Return (Some e)\<close>:
  \<^verbatim>\<open>clearNamespaces\<close> returns \<open>e\<close>.
\<close>

function clearNamespaceLoop ::
  "string \<Rightarrow> string \<Rightarrow> bool \<Rightarrow> 'ls option \<Rightarrow> KindOrder \<Rightarrow> 'w dynamic \<Rightarrow> 'ls meta \<Rightarrow>
   GroupVersionResource list \<Rightarrow> int \<Rightarrow> 'w state \<Rightarrow> error option go \<times> 'w state" where
  "clearNamespaceLoop appSlug namespace isRestore restoreLabelSelector kindDeleteOrder
     k8sDynamicClient mt deletionGVRs i s =
     (if i \<ge> 0 then
        (case buildDeleteKindOrderedNamespaceResources k8sDynamicClient mt deletionGVRs appSlug
                namespace isRestore restoreLabelSelector kindDeleteOrder s of
           (Inl err, s1) \<Rightarrow> (Return None, s1)
         | (Inr (resourcesToDelete, deleteOrderedKinds), s1) \<Rightarrow>
             if Mapping.is_empty resourcesToDelete then (Return None, s1)
             else
               (case clearNamespacedResources k8sDynamicClient namespace resourcesToDelete
                       deleteOrderedKinds s1 of
                  (Panic p, s2) \<Rightarrow> (Panic p, s2)
                | (Return None, s2) \<Rightarrow> (Return None, s2)
                | (Return (Some err), s2) \<Rightarrow>
                    if i = 0 then (Return (Some (failedToClear appSlug namespace)), s2)
                    else
                      clearNamespaceLoop appSlug namespace isRestore restoreLabelSelector
                        kindDeleteOrder k8sDynamicClient mt deletionGVRs (i - 1) (Sleep 2 s2)))
      else (Return None, s))"
  by pat_completeness auto
termination
  by (relation "measure (\<lambda>(appSlug, namespace, isRestore, restoreLabelSelector, kindDeleteOrder,
        k8sDynamicClient, mt, deletionGVRs, i, s). nat (i + 1))") auto

fun clearNamespacesOf ::
  "string \<Rightarrow> string list \<Rightarrow> bool \<Rightarrow> 'ls option \<Rightarrow> KindOrder \<Rightarrow> 'w dynamic \<Rightarrow> 'ls meta \<Rightarrow>
   GroupVersionResource list \<Rightarrow> 'w state \<Rightarrow> error option go \<times> 'w state" where
  "clearNamespacesOf appSlug [] isRestore restoreLabelSelector kindDeleteOrder k8sDynamicClient
     mt deletionGVRs s = (Return None, s)"
| "clearNamespacesOf appSlug (namespace # namespaces) isRestore restoreLabelSelector
     kindDeleteOrder k8sDynamicClient mt deletionGVRs s =
     (case clearNamespaceLoop appSlug namespace isRestore restoreLabelSelector kindDeleteOrder
             k8sDynamicClient mt deletionGVRs 60 s of
        (Return None, s') \<Rightarrow>
          clearNamespacesOf appSlug namespaces isRestore restoreLabelSelector kindDeleteOrder
            k8sDynamicClient mt deletionGVRs s'
      | (Return (Some e), s') \<Rightarrow> (Return (Some e), s')
      | (Panic p, s') \<Rightarrow> (Panic p, s'))"

text \<open>
  \<^verbatim>\<open>gvrs\<close> is a Go map used as a set; the list \<open>gvrs\<close> is its keys in the order in which
  the run-time system iterates over them.
\<close>

definition clearNamespaces ::
  "string \<Rightarrow> string list \<Rightarrow> bool \<Rightarrow> 'ls option \<Rightarrow> KindOrder \<Rightarrow> 'w dynamic \<Rightarrow> 'ls meta \<Rightarrow>
   GroupVersionResource list \<Rightarrow> 'w state \<Rightarrow> error option go \<times> 'w state" where
  "clearNamespaces appSlug namespacesToClear isRestore restoreLabelSelector kindDeleteOrder
     k8sDynamicClient mt gvrs s =
     (case clearNamespacesOf appSlug namespacesToClear isRestore restoreLabelSelector
             kindDeleteOrder k8sDynamicClient mt (deletionGVRsOf gvrs) s of
        (Return None, s') \<Rightarrow>
          (if length namespacesToClear > 0 then (Return None, Sleep 20 s') else (Return None, s'))
      | (Return (Some e), s') \<Rightarrow> (Return (Some e), s')
      | (Panic p, s') \<Rightarrow> (Panic p, s'))"

subsection \<open>Notions used in the statements\<close>

text \<open>
  The copy of an input resource that \<^verbatim>\<open>buildDeleteKindOrderedResources\<close> stores in a
  bucket: the input with its wait flag assigned and its namespace defaulted.
\<close>

definition storedCopy :: "string \<Rightarrow> bool \<Rightarrow> resource \<Rightarrow> resource" where
  "storedCopy defaultNS waitFlag r =
     (case Unstructured r of
        None \<Rightarrow> r
      | Some u \<Rightarrow>
          r\<lparr>Wait := (GetKind u \<noteq> ''PersistentVolumeClaim'' \<and> waitFlag),
            Unstructured := Some (if GetNamespace u = [] then SetNamespace defaultNS u else u)\<rparr>)"

text \<open>The key under which a resource is looked up: its kind, or the empty string without a kind.\<close>

definition kindKey :: "resource \<Rightarrow> string" where
  "kindKey r = (case GVK r of None \<Rightarrow> [] | Some gvk \<Rightarrow> Kind gvk)"

text \<open>Whether the key of the resource's group, kind and version is in the index.\<close>

definition inCrdIndex :: "(string, bool) mapping \<Rightarrow> resource \<Rightarrow> bool" where
  "inCrdIndex crdGVKMap r =
     (case GVK r of
        None \<Rightarrow> False
      | Some gvk \<Rightarrow> hasKey crdGVKMap (buildGVKKey (Group gvk) (Kind gvk) (Version gvk)))"

text \<open>Projections of the result of \<^verbatim>\<open>buildDeleteKindOrderedResources\<close>.\<close>

definition orderedKindsOf :: "(resourceMap \<times> KindSortOrder) go \<Rightarrow> KindSortOrder go" where
  "orderedKindsOf res = (case res of Panic p \<Rightarrow> Panic p | Return (m, ks) \<Rightarrow> Return ks)"

definition manifestsIn :: "(resourceMap \<times> KindSortOrder) go \<Rightarrow> string \<Rightarrow> string list go" where
  "manifestsIn res k =
     (case res of Panic p \<Rightarrow> Panic p | Return (m, ks) \<Rightarrow> Return (map Manifest (bucket m k)))"

text \<open>
  The call of the dynamic client that deletes a resource, with its outcome, and the call
  of the applier that removes a manifest; \<open>attempt\<close> forgets the outcome of a call.
\<close>

definition deleteEvent :: "string \<Rightarrow> error option \<Rightarrow> resource \<Rightarrow> event" where
  "deleteEvent namespace err r =
     EvDelete (GVR r) namespace (case Unstructured r of None \<Rightarrow> [] | Some u \<Rightarrow> GetName u) err"



text \<open>
  The resource that \<^verbatim>\<open>buildDeleteKindOrderedNamespaceResources\<close> makes of a listed object
  that is the last item of its listing (lines 351 to 356), and the resources of a bucket
  map in the order of a kind sequence.
\<close>

definition listedResource :: "'ls meta \<Rightarrow> GroupVersionResource \<Rightarrow> unstructured \<Rightarrow> resource" where
  "listedResource mt gvr u =
     \<lparr>Wait = False, Manifest = [], GVR = gvr, GVK = Some (GroupVersionKindOf mt u),
      Unstructured = Some u\<rparr>"

definition orderedResources :: "resourceMap \<Rightarrow> KindSortOrder \<Rightarrow> resource list" where
  "orderedResources m kinds = concat (map (bucket m) kinds)"

text \<open>The calls of the listing, the sleeps and the calls of the deletion in a trace.\<close>

fun isList :: "event \<Rightarrow> bool" where
  "isList (EvList gvr namespace) = True"
| "isList e = False"

definition listCalls :: "event list \<Rightarrow> nat" where
  "listCalls tr = length (filter isList tr)"

fun sleepsOf :: "event list \<Rightarrow> nat list" where
  "sleepsOf [] = []"
| "sleepsOf (EvSleep seconds # tr) = seconds # sleepsOf tr"
| "sleepsOf (e # tr) = sleepsOf tr"

definition deleteCalls :: "event list \<Rightarrow> nat" where
  "deleteCalls tr =
     length (filter (\<lambda>e. case e of EvDelete gvr namespace name err \<Rightarrow> True | _ \<Rightarrow> False) tr)"

text \<open>
  Whether every attempt fails when \<open>n\<close> attempts are left after the first: the listing
  returns a delete set and the delete pass returns an error, and so again after each
  sleep of two seconds.
\<close>

fun everyAttemptFails ::
  "string \<Rightarrow> string \<Rightarrow> bool \<Rightarrow> 'ls option \<Rightarrow> KindOrder \<Rightarrow> 'w dynamic \<Rightarrow> 'ls meta \<Rightarrow>
   GroupVersionResource list \<Rightarrow> nat \<Rightarrow> 'w state \<Rightarrow> bool" where
  "everyAttemptFails appSlug namespace isRestore restoreLabelSelector kindDeleteOrder
     k8sDynamicClient mt deletionGVRs 0 s =
     (case buildDeleteKindOrderedNamespaceResources k8sDynamicClient mt deletionGVRs appSlug
             namespace isRestore restoreLabelSelector kindDeleteOrder s of
        (Inl err, s1) \<Rightarrow> False
      | (Inr (resourcesToDelete, deleteOrderedKinds), s1) \<Rightarrow>
          (case clearNamespacedResources k8sDynamicClient namespace resourcesToDelete
                  deleteOrderedKinds s1 of
             (Return (Some err), s2) \<Rightarrow> True
           | (Return None, s2) \<Rightarrow> False
           | (Panic p, s2) \<Rightarrow> False))"
| "everyAttemptFails appSlug namespace isRestore restoreLabelSelector kindDeleteOrder
     k8sDynamicClient mt deletionGVRs (Suc n) s =
     (case buildDeleteKindOrderedNamespaceResources k8sDynamicClient mt deletionGVRs appSlug
             namespace isRestore restoreLabelSelector kindDeleteOrder s of
        (Inl err, s1) \<Rightarrow> False
      | (Inr (resourcesToDelete, deleteOrderedKinds), s1) \<Rightarrow>
          (case clearNamespacedResources k8sDynamicClient namespace resourcesToDelete
                  deleteOrderedKinds s1 of
             (Return (Some err), s2) \<Rightarrow>
               everyAttemptFails appSlug namespace isRestore restoreLabelSelector kindDeleteOrder
                 k8sDynamicClient mt deletionGVRs n (Sleep 2 s2)
           | (Return None, s2) \<Rightarrow> False
           | (Panic p, s2) \<Rightarrow> False))"

subsection \<open>Example inputs\<close>

text \<open>An object of a kind and a name, without namespace, labels or annotations.\<close>

definition object :: "string \<Rightarrow> string \<Rightarrow> unstructured" where
  "object kind name =
     \<lparr>GetKind = kind, GetName = name, GetNamespace = [], GetLabels = Mapping.empty,
      GetAnnotations = Mapping.empty, GetDeletionTimestamp = None\<rparr>"

text \<open>A decoded manifest; the name of the object stands for the text of the manifest.\<close>

definition decoded :: "string \<Rightarrow> string \<Rightarrow> string \<Rightarrow> string \<Rightarrow> resource" where
  "decoded grp version kind name =
     \<lparr>Wait = False, Manifest = name,
      GVR = \<lparr>gvrGroup = [], gvrVersion = [], gvrResource = []\<rparr>,
      GVK = Some \<lparr>Group = grp, Version = version, Kind = kind\<rparr>,
      Unstructured = Some (object kind name)\<rparr>"

definition noOrder :: KindOrder where
  "noOrder = \<lparr>PreOrder = [], PostOrder = []\<rparr>"

text \<open>
  A run time whose decoder rejects the text \<open>''{''\<close> and whose conversion reads every
  definition as the one of kind \<open>Foo\<close> in group \<open>example.com\<close>, version \<open>v1\<close>.
\<close>

definition fooRuntime :: "unit runtime" where
  "fooRuntime =
     \<lparr>yamlDecode = (\<lambda>manifest.
         if manifest = ''{'' then Inl (External ''unexpected end of input'') else Inr manifest),
      serializerDecode = (\<lambda>raw.
         ((), Some \<lparr>Group = [], Version = ''v1'', Kind = raw\<rparr>)),
      ToUnstructured = (\<lambda>obj. Return (Inr (object [] []))),
      FromUnstructured = (\<lambda>u.
         Inr \<lparr>specGroup = ''example.com'', specNamesKind = ''Foo'', specVersions = [''v1'']\<rparr>)\<rparr>"

definition fooIndex :: "(string, bool) mapping" where
  "fooIndex = Mapping.update ''example.com/Foo/v1'' True Mapping.empty"

definition fooDefinition :: resource where
  "fooDefinition =
     decoded ''apiextensions.k8s.io'' ''v1'' ''CustomResourceDefinition'' ''foos.example.com''"

text \<open>A persistent volume claim.\<close>

definition claimManifest :: resource where
  "claimManifest = decoded [] ''v1'' ''PersistentVolumeClaim'' ''data''"

text \<open>
  A batch with the definition of \<open>Foo\<close> in group \<open>example.com\<close> and an object of a kind
  \<open>Foo\<close> of another group, and an instance of the defined kind.
\<close>

definition fooBatch :: "resource list" where
  "fooBatch = [fooDefinition, decoded ''other.io'' ''v1'' ''Foo'' ''other-foo'']"

definition fooInstance :: resource where
  "fooInstance = decoded ''example.com'' ''v1'' ''Foo'' ''foo''"

text \<open>An applier whose removals succeed, and the state before the first call.\<close>

definition acceptingKubectl :: "unit kubectl" where
  "acceptingKubectl = \<lparr>Remove = (\<lambda>namespace manifest wait w. (([], [], None), w))\<rparr>"

definition start :: "'w \<Rightarrow> 'w state" where
  "start w = \<lparr>world = w, trace = []\<rparr>"

text \<open>
  A cluster whose state is the list of its live objects, each with its resource type: the
  listing of a resource type returns the objects of that type, a deletion removes the
  object of that type and name, and the deletion of the names in \<open>refused\<close> fails.
\<close>

type_synonym cluster = "(GroupVersionResource \<times> unstructured) list"

definition clusterDyn :: "string list \<Rightarrow> cluster dynamic" where
  "clusterDyn refused =
     \<lparr>dynList = (\<lambda>gvr namespace w.
         ((Some (map snd (filter (\<lambda>live. fst live = gvr) w)), None), w)),
      dynDelete = (\<lambda>gvr namespace name w.
         if name \<in> set refused then (Some (External ''forbidden''), w)
         else (None, filter (\<lambda>live. \<not> (fst live = gvr \<and> GetName (snd live) = name)) w))\<rparr>"

definition plainMeta :: "string meta" where
  "plainMeta =
     \<lparr>LabelSelectorAsSelector = (\<lambda>ls.
         if ls = ''!'' then Inl (External ''invalid label selector'')
         else Inr (\<lambda>labels. Mapping.lookup labels ''tier'' = Some ls)),
      GroupVersionKindOf = (\<lambda>u. \<lparr>Group = [], Version = ''v1'', Kind = GetKind u\<rparr>)\<rparr>"

definition podsGVR :: GroupVersionResource where
  "podsGVR = \<lparr>gvrGroup = [], gvrVersion = ''v1'', gvrResource = ''pods''\<rparr>"





text \<open>An object with the annotation of the application \<open>app\<close>, and three pods of the application.\<close>

definition owned :: "string \<Rightarrow> string \<Rightarrow> unstructured" where
  "owned kind name =
     (object kind name)\<lparr>GetAnnotations := Mapping.update ''kots.io/app-slug'' ''app'' Mapping.empty\<rparr>"







text \<open>
  A listing of two pods: a pod of the application, followed by a pod without the
  annotation of any application.
\<close>

definition strayListing :: cluster where
  "strayListing = [(podsGVR, owned ''Pod'' ''a''), (podsGVR, object ''Pod'' ''x'')]"

text \<open>A cluster with one pod of the application, for a client that refuses to delete it.\<close>

definition stuckPod :: cluster where
  "stuckPod = [(podsGVR, owned ''Pod'' ''a'')]"

text \<open>One attempt on the pod that is not deleted: the listing and the refused deletion.\<close>

definition stuckAttempt :: "event list" where
  "stuckAttempt =
     [EvList podsGVR ''ns'', EvDelete podsGVR ''ns'' ''a'' (Some (External ''forbidden''))]"

text \<open>
  A client that refuses the first deletions, as many as its counter says, and deletes
  afterwards; a client that accepts every deletion and deletes nothing; a pod of the
  application that is pending deletion.
\<close>

definition flakyDyn :: "(nat \<times> cluster) dynamic" where
  "flakyDyn =
     \<lparr>dynList = (\<lambda>gvr namespace w.
         ((Some (map snd (filter (\<lambda>live. fst live = gvr) (snd w))), None), w)),
      dynDelete = (\<lambda>gvr namespace name w.
         if 0 < fst w then (Some (External ''forbidden''), (fst w - 1, snd w))
         else (None, (0, filter (\<lambda>live. \<not> (fst live = gvr \<and> GetName (snd live) = name)) (snd w))))\<rparr>"

definition stickyDyn :: "cluster dynamic" where
  "stickyDyn =
     \<lparr>dynList = (\<lambda>gvr namespace w.
         ((Some (map snd (filter (\<lambda>live. fst live = gvr) w)), None), w)),
      dynDelete = (\<lambda>gvr namespace name w. (None, w))\<rparr>"

definition pendingPod :: cluster where
  "pendingPod =
     [(podsGVR, (owned ''Pod'' ''a'')\<lparr>GetDeletionTimestamp := Some ''2023-09-01T00:00:00Z''\<rparr>)]"

section \<open>Properties\<close>

subsection \<open>Buckets\<close>

lemma bucket_appendTo:
  "bucket (appendTo k r m) k' = (if k = k' then bucket m k @ [r] else bucket m k')"
  by (simp add: appendTo_def Mapping.lookup_default_update')

lemma bucket_update:
  "bucket (Mapping.update k v m) k' = (if k = k' then v else bucket m k')"
  by (simp add: Mapping.lookup_default_update')

lemma keys_appendTo: "Mapping.keys (appendTo k r m) = insert k (Mapping.keys m)"
  by (simp add: appendTo_def)

lemma hasKey_keys: "hasKey m k \<longleftrightarrow> k \<in> Mapping.keys m"
  by (simp add: hasKey_def keys_dom_lookup domIff)

lemma bucket_fold_empty:
  "(\<And>k. bucket m k = []) \<Longrightarrow> bucket (fold (\<lambda>k m. Mapping.update k [] m) ks m) k' = []"
  by (induction ks arbitrary: m) (simp_all add: bucket_update)

lemma keys_fold_empty:
  "Mapping.keys (fold (\<lambda>k m. Mapping.update k v m) ks m) = set ks \<union> Mapping.keys m"
  by (induction ks arbitrary: m) auto

lemma bucket_init: "bucket (initResourceKindOrderMap ko) k = []"
  unfolding initResourceKindOrderMap_def
  by (intro bucket_fold_empty) (simp add: Mapping.lookup_default_empty)

lemma keys_init: "Mapping.keys (initResourceKindOrderMap ko) = set (PreOrder ko) \<union> set (PostOrder ko)"
  unfolding initResourceKindOrderMap_def by (auto simp: keys_fold_empty)


lemma appendTo_fresh:
  "\<not> hasKey m k \<Longrightarrow> appendTo k r (Mapping.update k [] m) = appendTo k r m"
  by (simp add: appendTo_def hasKey_def Mapping.lookup_default_def Mapping.update_update(1))

lemma deleteOrderStep_None:
  "Unstructured r0 = None \<Longrightarrow> deleteOrderStep ns crd waitFlag r0 acc = Panic NilPointerDereference"
  by (simp add: deleteOrderStep_def shouldResourceWaitForDeletion_def split: prod.splits)

lemma deleteOrderStep_Some:
  assumes "Unstructured r0 = Some u0"
  shows "deleteOrderStep ns crd waitFlag r0 (m, d) =
     Return (appendTo (if inCrdIndex crd r0 \<and> \<not> hasKey m (kindKey r0) then ''CustomResource'' else kindKey r0)
               (storedCopy ns waitFlag r0) m,
             if \<not> inCrdIndex crd r0 \<and> \<not> hasKey m (kindKey r0) then d @ [kindKey r0] else d)"
  using assms
  unfolding deleteOrderStep_def shouldResourceWaitForDeletion_def storedCopy_def kindKey_def inCrdIndex_def
  by (simp add: Let_def appendTo_fresh split: option.splits)


lemma buildFrom_Panic:
  "\<exists>r\<in>set rs. Unstructured r = None \<Longrightarrow>
   buildDeleteKindOrderedResourcesFrom rs ns crd waitFlag acc = Panic NilPointerDereference"
proof (induction rs arbitrary: acc)
  case Nil
  then show ?case by simp
next
  case (Cons r rs)
  show ?case
  proof (cases "Unstructured r")
    case None
    then show ?thesis by (simp add: deleteOrderStep_None)
  next
    case (Some u)
    with Cons.prems have "\<exists>r\<in>set rs. Unstructured r = None" by auto
    from Cons.IH[OF this] Some show ?thesis
      by (cases acc) (simp add: deleteOrderStep_Some)
  qed
qed

lemma buildFrom_Return:
  "\<forall>r\<in>set rs. Unstructured r \<noteq> None \<Longrightarrow>
   \<exists>acc'. buildDeleteKindOrderedResourcesFrom rs ns crd waitFlag acc = Return acc'"
proof (induction rs arbitrary: acc)
  case Nil
  then show ?case by simp
next
  case (Cons r rs)
  then obtain u where u: "Unstructured r = Some u" by auto
  from Cons.prems have "\<forall>r\<in>set rs. Unstructured r \<noteq> None" by simp
  from Cons.IH[OF this] u show ?case
    by (cases acc) (simp add: deleteOrderStep_Some)
qed

lemma buildFrom_Return_iff:
  "(\<exists>acc'. buildDeleteKindOrderedResourcesFrom rs ns crd waitFlag acc = Return acc') \<longleftrightarrow>
   (\<forall>r\<in>set rs. Unstructured r \<noteq> None)"
  using buildFrom_Return[of rs ns crd waitFlag acc] buildFrom_Panic[of rs ns crd waitFlag acc]
  by (metis go.distinct(1))

lemma buildFrom_defaultOrder:
  assumes "buildDeleteKindOrderedResourcesFrom rs ns crd waitFlag (m, d) = Return (m', d')"
  shows "\<exists>seen. d' = d @ seen \<and> distinct seen \<and>
           set seen \<subseteq> {kindKey r |r. r \<in> set rs \<and> \<not> inCrdIndex crd r} - Mapping.keys m \<and>
           Mapping.keys m \<subseteq> Mapping.keys m' \<and>
           (''CustomResource'' \<in> Mapping.keys m \<longrightarrow>
              set seen = {kindKey r |r. r \<in> set rs \<and> \<not> inCrdIndex crd r} - Mapping.keys m)"
  using assms
proof (induction rs arbitrary: m d)
  case Nil
  then show ?case by simp
next
  case (Cons r rs)
  from Cons.prems obtain u where u: "Unstructured r = Some u"
    by (cases "Unstructured r") (simp_all add: deleteOrderStep_None)
  let ?k = "if inCrdIndex crd r \<and> \<not> hasKey m (kindKey r) then ''CustomResource'' else kindKey r"
  let ?m1 = "appendTo ?k (storedCopy ns waitFlag r) m"
  let ?d1 = "if \<not> inCrdIndex crd r \<and> \<not> hasKey m (kindKey r) then d @ [kindKey r] else d"
  from Cons.prems u
  have rest: "buildDeleteKindOrderedResourcesFrom rs ns crd waitFlag (?m1, ?d1) = Return (m', d')"
    by (simp add: deleteOrderStep_Some)
  from Cons.IH[OF rest] obtain seen where
    seen: "d' = ?d1 @ seen" "distinct seen"
      "set seen \<subseteq> {kindKey r |r. r \<in> set rs \<and> \<not> inCrdIndex crd r} - Mapping.keys ?m1"
      "Mapping.keys ?m1 \<subseteq> Mapping.keys m'"
      "''CustomResource'' \<in> Mapping.keys ?m1 \<longrightarrow>
         set seen = {kindKey r |r. r \<in> set rs \<and> \<not> inCrdIndex crd r} - Mapping.keys ?m1"
    by blast
  have keys1: "Mapping.keys ?m1 = insert ?k (Mapping.keys m)"
    by (simp add: keys_appendTo)
  show ?case
  proof (cases "\<not> inCrdIndex crd r \<and> \<not> hasKey m (kindKey r)")
    case True
    then have k: "?k = kindKey r" and fresh: "kindKey r \<notin> Mapping.keys m"
      by (simp_all add: hasKey_keys)
    have "d' = d @ (kindKey r # seen)" using seen(1) True by simp
    moreover have "distinct (kindKey r # seen)" using seen(2,3) keys1 k by auto
    moreover have "set (kindKey r # seen) \<subseteq>
        {kindKey x |x. x \<in> set (r # rs) \<and> \<not> inCrdIndex crd x} - Mapping.keys m"
      using seen(3) keys1 k True fresh by auto
    moreover have "Mapping.keys m \<subseteq> Mapping.keys m'" using seen(4) keys1 by auto
    moreover have "''CustomResource'' \<in> Mapping.keys m \<longrightarrow>
        set (kindKey r # seen) = {kindKey x |x. x \<in> set (r # rs) \<and> \<not> inCrdIndex crd x} - Mapping.keys m"
      using seen(5) keys1 k True fresh by auto
    ultimately show ?thesis by blast
  next
    case False
    then have d1: "?d1 = d" by auto
    have "d' = d @ seen" using seen(1) d1 by simp
    moreover have "set seen \<subseteq>
        {kindKey x |x. x \<in> set (r # rs) \<and> \<not> inCrdIndex crd x} - Mapping.keys m"
      using seen(3) keys1 by auto
    moreover have "Mapping.keys m \<subseteq> Mapping.keys m'" using seen(4) keys1 by auto
    moreover have "''CustomResource'' \<in> Mapping.keys m \<longrightarrow>
        set seen = {kindKey x |x. x \<in> set (r # rs) \<and> \<not> inCrdIndex crd x} - Mapping.keys m"
    proof
      assume c: "''CustomResource'' \<in> Mapping.keys m"
      then have "?k \<in> Mapping.keys m" using False by (auto simp: hasKey_keys)
      then have same: "Mapping.keys ?m1 = Mapping.keys m" using keys1 by auto
      with seen(5) c have "set seen = {kindKey r |r. r \<in> set rs \<and> \<not> inCrdIndex crd r} - Mapping.keys m"
        by simp
      moreover have "inCrdIndex crd r \<or> kindKey r \<in> Mapping.keys m"
        using False by (auto simp: hasKey_keys)
      ultimately show "set seen = {kindKey x |x. x \<in> set (r # rs) \<and> \<not> inCrdIndex crd x} - Mapping.keys m"
        by auto
    qed
    ultimately show ?thesis using seen(2) by blast
  qed
qed



subsection \<open>The ordered kind sequence\<close>

lemma orderedKindsOf_Return:
  "orderedKindsOf res = Return ks \<longleftrightarrow> (\<exists>m. res = Return (m, ks))"
  by (auto simp: orderedKindsOf_def split: go.splits)

lemma build_Return:
  "buildDeleteKindOrderedResources ko rs ns crd waitFlag = Return (m, ks) \<longleftrightarrow>
   (\<exists>d. buildDeleteKindOrderedResourcesFrom rs ns crd waitFlag (initResourceKindOrderMap ko, [])
           = Return (m, d) \<and> ks = getOrderedKinds ko d)"
  by (auto simp: buildDeleteKindOrderedResources_def split: go.splits)

lemma sort_distinct_set:
  "distinct xs \<Longrightarrow> sort xs = sorted_list_of_set (set xs)"
  by (simp add: sorted_list_of_set_sort_remdups distinct_remdups_id)

text \<open>
  Claim C1, as the code has it. For every batch and every kind-order table, the sequence that
  \<^verbatim>\<open>buildDeleteKindOrderedResources\<close> returns is the pre-order, then the sorted list of
  the default kinds newly seen in the batch (distinct kinds, absent from the table, of
  resources that are not in the index of custom resource definitions), then the
  post-order. When the table lists the reserved kind \<open>CustomResource\<close>, as the default
  delete order does, the newly seen kinds are exactly those kinds, and every permutation
  of the batch gives the same sequence.
\<close>

theorem ordered_kind_sequence:
  assumes "buildDeleteKindOrderedResources ko rs ns crd waitFlag = Return (m, ks)"
  shows "(\<exists>seen. distinct seen \<and>
            set seen \<subseteq> {kindKey r |r. r \<in> set rs \<and> \<not> inCrdIndex crd r}
                         - (set (PreOrder ko) \<union> set (PostOrder ko)) \<and>
            ks = PreOrder ko @ sort seen @ PostOrder ko) \<and>
         (''CustomResource'' \<in> set (PreOrder ko) \<union> set (PostOrder ko) \<longrightarrow>
            ks = PreOrder ko
                 @ sorted_list_of_set ({kindKey r |r. r \<in> set rs \<and> \<not> inCrdIndex crd r}
                                        - (set (PreOrder ko) \<union> set (PostOrder ko)))
                 @ PostOrder ko \<and>
            (\<forall>rs'. mset rs' = mset rs \<longrightarrow>
               orderedKindsOf (buildDeleteKindOrderedResources ko rs' ns crd waitFlag) = Return ks))"
proof -
  let ?init = "initResourceKindOrderMap ko"
  let ?table = "set (PreOrder ko) \<union> set (PostOrder ko)"
  let ?S = "\<lambda>xs. {kindKey r |r. r \<in> set xs \<and> \<not> inCrdIndex crd r} - ?table"
  from assms obtain d where
    d: "buildDeleteKindOrderedResourcesFrom rs ns crd waitFlag (?init, []) = Return (m, d)"
    and ks: "ks = getOrderedKinds ko d"
    by (auto simp: build_Return)
  from buildFrom_defaultOrder[OF d] have
    seen: "distinct d" "set d \<subseteq> ?S rs" "''CustomResource'' \<in> ?table \<longrightarrow> set d = ?S rs"
    by (auto simp: keys_init)
  have first: "\<exists>seen. distinct seen \<and> set seen \<subseteq> ?S rs \<and> ks = PreOrder ko @ sort seen @ PostOrder ko"
    using seen(1,2) ks unfolding getOrderedKinds_def by blast
  have second: "ks = PreOrder ko @ sorted_list_of_set (?S rs) @ PostOrder ko \<and>
       (\<forall>rs'. mset rs' = mset rs \<longrightarrow>
          orderedKindsOf (buildDeleteKindOrderedResources ko rs' ns crd waitFlag) = Return ks)"
    if c: "''CustomResource'' \<in> ?table"
  proof
    from c seen have eq: "sort d = sorted_list_of_set (?S rs)"
      by (simp add: sort_distinct_set)
    then show ks_eq: "ks = PreOrder ko @ sorted_list_of_set (?S rs) @ PostOrder ko"
      using ks by (simp add: getOrderedKinds_def)
    show "\<forall>rs'. mset rs' = mset rs \<longrightarrow>
          orderedKindsOf (buildDeleteKindOrderedResources ko rs' ns crd waitFlag) = Return ks"
    proof (intro allI impI)
      fix rs' assume perm: "mset rs' = mset rs"
      then have sets: "set rs' = set rs" by (rule mset_eq_setD)
      have "\<forall>r\<in>set rs. Unstructured r \<noteq> None"
        using d buildFrom_Return_iff[of rs ns crd waitFlag "(?init, [])"] by auto
      then have "\<forall>r\<in>set rs'. Unstructured r \<noteq> None" using sets by simp
      then obtain m' d' where
        d': "buildDeleteKindOrderedResourcesFrom rs' ns crd waitFlag (?init, []) = Return (m', d')"
        using buildFrom_Return[of rs' ns crd waitFlag "(?init, [])"] by auto
      from buildFrom_defaultOrder[OF d'] c have "distinct d'" "set d' = ?S rs'"
        by (auto simp: keys_init)
      then have "sort d' = sorted_list_of_set (?S rs)"
        using sets by (simp add: sort_distinct_set)
      then have "getOrderedKinds ko d' = ks"
        using ks_eq by (simp add: getOrderedKinds_def)
      with d' show "orderedKindsOf (buildDeleteKindOrderedResources ko rs' ns crd waitFlag) = Return ks"
        by (simp add: orderedKindsOf_def buildDeleteKindOrderedResources_def)
    qed
  qed
  from first second show ?thesis by blast
qed

text \<open>The theorem at a batch of two unknown kinds, in both orders, with the default table.\<close>

theorem ordered_kind_sequence_witness:
  "orderedKindsOf (buildDeleteKindOrderedResources defaultKindDeleteOrder
      [decoded [] ''v1'' ''Zeta'' ''z'', decoded [] ''v1'' ''Alpha'' ''a''] ''ns'' fooIndex True)
     = Return (PreOrder defaultKindDeleteOrder @ [''Alpha'', ''Zeta''] @ PostOrder defaultKindDeleteOrder) \<and>
   orderedKindsOf (buildDeleteKindOrderedResources defaultKindDeleteOrder
      [decoded [] ''v1'' ''Alpha'' ''a'', decoded [] ''v1'' ''Zeta'' ''z''] ''ns'' fooIndex True)
     = Return (PreOrder defaultKindDeleteOrder @ [''Alpha'', ''Zeta''] @ PostOrder defaultKindDeleteOrder)"
proof -
  let ?rs = "[decoded [] ''v1'' ''Zeta'' ''z'', decoded [] ''v1'' ''Alpha'' ''a'']"
  let ?rs' = "[decoded [] ''v1'' ''Alpha'' ''a'', decoded [] ''v1'' ''Zeta'' ''z'']"
  let ?ks = "PreOrder defaultKindDeleteOrder @ [''Alpha'', ''Zeta''] @ PostOrder defaultKindDeleteOrder"
  have run: "orderedKindsOf (buildDeleteKindOrderedResources defaultKindDeleteOrder ?rs ''ns'' fooIndex True)
      = Return ?ks"
    by code_simp
  then obtain m where
    m: "buildDeleteKindOrderedResources defaultKindDeleteOrder ?rs ''ns'' fooIndex True = Return (m, ?ks)"
    by (auto simp: orderedKindsOf_Return)
  have table: "''CustomResource'' \<in> set (PreOrder defaultKindDeleteOrder) \<union> set (PostOrder defaultKindDeleteOrder)"
    by (simp add: defaultKindDeleteOrder_def)
  have perm: "mset ?rs' = mset ?rs" by (simp add: add.commute)
  from ordered_kind_sequence[OF m] table perm
  have "orderedKindsOf (buildDeleteKindOrderedResources defaultKindDeleteOrder ?rs' ''ns'' fooIndex True)
      = Return ?ks"
    by blast
  with run show ?thesis by simp
qed

text \<open>
  Without the reserved kind in the table the sequence depends on the order of the batch:
  an instance of a custom resource definition that comes first creates the bucket
  \<open>CustomResource\<close> without recording the kind, and a later resource whose literal kind
  is \<open>CustomResource\<close> finds the bucket and is not recorded either.
\<close>

theorem permutation_changes_kinds_without_reserved_key:
  "buildCrdGVKMap fooRuntime
     [fooDefinition, decoded ''example.com'' ''v1'' ''Foo'' ''a'', decoded [] ''v1'' ''CustomResource'' ''b'']
     = Return fooIndex \<and>
   orderedKindsOf (buildDeleteKindOrderedResources noOrder
     [fooDefinition, decoded ''example.com'' ''v1'' ''Foo'' ''a'', decoded [] ''v1'' ''CustomResource'' ''b'']
     ''ns'' fooIndex False) = Return [''CustomResourceDefinition''] \<and>
   buildCrdGVKMap fooRuntime
     [fooDefinition, decoded [] ''v1'' ''CustomResource'' ''b'', decoded ''example.com'' ''v1'' ''Foo'' ''a'']
     = Return fooIndex \<and>
   orderedKindsOf (buildDeleteKindOrderedResources noOrder
     [fooDefinition, decoded [] ''v1'' ''CustomResource'' ''b'', decoded ''example.com'' ''v1'' ''Foo'' ''a'']
     ''ns'' fooIndex False) = Return [''CustomResource'', ''CustomResourceDefinition'']"
  by code_simp

subsection \<open>Wait flags and buckets\<close>

lemma buildFrom_append:
  "buildDeleteKindOrderedResourcesFrom (xs @ ys) ns crd waitFlag acc =
     (case buildDeleteKindOrderedResourcesFrom xs ns crd waitFlag acc of
        Panic p \<Rightarrow> Panic p
      | Return acc' \<Rightarrow> buildDeleteKindOrderedResourcesFrom ys ns crd waitFlag acc')"
  by (induction xs arbitrary: acc) (simp_all split: go.splits)

lemma buildFrom_buckets:
  assumes "buildDeleteKindOrderedResourcesFrom rs ns crd waitFlag (m, d) = Return (m', d')"
  shows "(\<forall>k. set (bucket m' k) \<subseteq> set (bucket m k) \<union> storedCopy ns waitFlag ` set rs) \<and>
         (\<forall>k. set (bucket m k) \<subseteq> set (bucket m' k)) \<and>
         (\<forall>r\<in>set rs. \<exists>k. storedCopy ns waitFlag r \<in> set (bucket m' k))"
  using assms
proof (induction rs arbitrary: m d)
  case Nil
  then show ?case by simp
next
  case (Cons r rs)
  from Cons.prems obtain u where u: "Unstructured r = Some u"
    by (cases "Unstructured r") (simp_all add: deleteOrderStep_None)
  let ?k = "if inCrdIndex crd r \<and> \<not> hasKey m (kindKey r) then ''CustomResource'' else kindKey r"
  let ?m1 = "appendTo ?k (storedCopy ns waitFlag r) m"
  let ?d1 = "if \<not> inCrdIndex crd r \<and> \<not> hasKey m (kindKey r) then d @ [kindKey r] else d"
  from Cons.prems u
  have rest: "buildDeleteKindOrderedResourcesFrom rs ns crd waitFlag (?m1, ?d1) = Return (m', d')"
    by (simp add: deleteOrderStep_Some)
  note ih = Cons.IH[OF rest]
  have b1: "\<And>k. set (bucket ?m1 k) \<subseteq> insert (storedCopy ns waitFlag r) (set (bucket m k))"
    by (auto simp: bucket_appendTo split: if_splits)
  have b2: "\<And>k. set (bucket m k) \<subseteq> set (bucket ?m1 k)"
    by (auto simp: bucket_appendTo)
  have b3: "storedCopy ns waitFlag r \<in> set (bucket ?m1 ?k)"
    by (simp add: bucket_appendTo)
  have "\<forall>k. set (bucket m' k) \<subseteq> set (bucket m k) \<union> storedCopy ns waitFlag ` set (r # rs)"
  proof
    fix k
    have "set (bucket m' k) \<subseteq> set (bucket ?m1 k) \<union> storedCopy ns waitFlag ` set rs"
      using ih by blast
    also have "\<dots> \<subseteq> insert (storedCopy ns waitFlag r) (set (bucket m k)) \<union> storedCopy ns waitFlag ` set rs"
      using b1[of k] by blast
    finally show "set (bucket m' k) \<subseteq> set (bucket m k) \<union> storedCopy ns waitFlag ` set (r # rs)"
      by auto
  qed
  moreover have "\<forall>k. set (bucket m k) \<subseteq> set (bucket m' k)"
  proof
    fix k
    have "set (bucket ?m1 k) \<subseteq> set (bucket m' k)" using ih by blast
    with b2[of k] show "set (bucket m k) \<subseteq> set (bucket m' k)" by blast
  qed
  moreover have "\<forall>x\<in>set (r # rs). \<exists>k. storedCopy ns waitFlag x \<in> set (bucket m' k)"
  proof
    fix x assume "x \<in> set (r # rs)"
    then consider "x = r" | "x \<in> set rs" by auto
    then show "\<exists>k. storedCopy ns waitFlag x \<in> set (bucket m' k)"
    proof cases
      case 1
      have "set (bucket ?m1 ?k) \<subseteq> set (bucket m' ?k)" using ih by blast
      with b3 1 show ?thesis by blast
    next
      case 2
      with ih show ?thesis by blast
    qed
  qed
  ultimately show ?case by blast
qed

lemma storedCopy_pvc:
  "Unstructured (storedCopy ns waitFlag r) = Some u \<Longrightarrow> GetKind u = ''PersistentVolumeClaim''
   \<Longrightarrow> \<not> Wait (storedCopy ns waitFlag r)"
  by (auto simp: storedCopy_def SetNamespace_def split: option.splits if_splits)

text \<open>
  Claim C5. When \<^verbatim>\<open>buildDeleteKindOrderedResources\<close> returns, every resource of the batch
  has its copy in a bucket of the map, and every resource in the map whose object is of
  kind \<open>PersistentVolumeClaim\<close> has the wait flag \<open>False\<close>, whatever wait flag the
  caller passed.
\<close>

theorem storage_claim_never_waits:
  assumes "buildDeleteKindOrderedResources ko rs ns crd waitFlag = Return (m, ks)"
  shows "(\<forall>r\<in>set rs. \<exists>k. storedCopy ns waitFlag r \<in> set (bucket m k)) \<and>
         (\<forall>k. \<forall>r\<in>set (bucket m k). \<forall>u.
            Unstructured r = Some u \<and> GetKind u = ''PersistentVolumeClaim'' \<longrightarrow> \<not> Wait r)"
proof -
  from assms obtain d where
    d: "buildDeleteKindOrderedResourcesFrom rs ns crd waitFlag (initResourceKindOrderMap ko, [])
          = Return (m, d)"
    by (auto simp: build_Return)
  note b = buildFrom_buckets[OF d]
  have "\<forall>k. set (bucket m k) \<subseteq> storedCopy ns waitFlag ` set rs"
    using b by (simp add: bucket_init)
  then have "\<forall>k. \<forall>r\<in>set (bucket m k). \<forall>u.
      Unstructured r = Some u \<and> GetKind u = ''PersistentVolumeClaim'' \<longrightarrow> \<not> Wait r"
    using storedCopy_pvc by blast
  with b show ?thesis by blast
qed

text \<open>The theorem at a batch of one claim, deleted with the wait flag set.\<close>

theorem storage_claim_never_waits_witness:
  "buildDeleteKindOrderedResources defaultKindDeleteOrder [claimManifest] ''ns'' Mapping.empty True
     = Return (appendTo ''PersistentVolumeClaim'' (storedCopy ''ns'' True claimManifest)
                 (initResourceKindOrderMap defaultKindDeleteOrder),
               PreOrder defaultKindDeleteOrder @ PostOrder defaultKindDeleteOrder) \<and>
   Unstructured (storedCopy ''ns'' True claimManifest)
     = Some ((object ''PersistentVolumeClaim'' ''data'')\<lparr>GetNamespace := ''ns''\<rparr>) \<and>
   \<not> Wait (storedCopy ''ns'' True claimManifest)"
proof -
  have u: "Unstructured claimManifest = Some (object ''PersistentVolumeClaim'' ''data'')"
    by (simp add: claimManifest_def decoded_def)
  have key: "kindKey claimManifest = ''PersistentVolumeClaim''"
    by (simp add: claimManifest_def decoded_def kindKey_def)
  have idx: "\<not> inCrdIndex Mapping.empty claimManifest"
    by (simp add: claimManifest_def decoded_def inCrdIndex_def hasKey_def)
  have has: "hasKey (initResourceKindOrderMap defaultKindDeleteOrder) ''PersistentVolumeClaim''"
    by (simp add: hasKey_keys keys_init defaultKindDeleteOrder_def)
  have run: "buildDeleteKindOrderedResources defaultKindDeleteOrder [claimManifest] ''ns'' Mapping.empty True
     = Return (appendTo ''PersistentVolumeClaim'' (storedCopy ''ns'' True claimManifest)
                 (initResourceKindOrderMap defaultKindDeleteOrder),
               PreOrder defaultKindDeleteOrder @ PostOrder defaultKindDeleteOrder)"
    by (simp add: buildDeleteKindOrderedResources_def deleteOrderStep_Some[OF u] key idx has
          getOrderedKinds_def)
  have stored: "Unstructured (storedCopy ''ns'' True claimManifest)
     = Some ((object ''PersistentVolumeClaim'' ''data'')\<lparr>GetNamespace := ''ns''\<rparr>)"
    by (simp add: storedCopy_def u SetNamespace_def object_def)
  have "storedCopy ''ns'' True claimManifest
      \<in> set (bucket (appendTo ''PersistentVolumeClaim'' (storedCopy ''ns'' True claimManifest)
                 (initResourceKindOrderMap defaultKindDeleteOrder)) ''PersistentVolumeClaim'')"
    by (simp add: bucket_appendTo)
  with storage_claim_never_waits[OF run] stored
  have "\<not> Wait (storedCopy ''ns'' True claimManifest)"
    by (auto simp: object_def)
  with run stored show ?thesis by simp
qed

lemma buildFrom_keys:
  assumes "buildDeleteKindOrderedResourcesFrom rs ns crd waitFlag (m, d) = Return (m', d')"
  shows "insert ''CustomResource'' (Mapping.keys m') =
         insert ''CustomResource''
           (Mapping.keys m \<union> {kindKey r |r. r \<in> set rs \<and> \<not> inCrdIndex crd r})"
  using assms
proof (induction rs arbitrary: m d)
  case Nil
  then show ?case by simp
next
  case (Cons r rs)
  from Cons.prems obtain u where u: "Unstructured r = Some u"
    by (cases "Unstructured r") (simp_all add: deleteOrderStep_None)
  let ?k = "if inCrdIndex crd r \<and> \<not> hasKey m (kindKey r) then ''CustomResource'' else kindKey r"
  let ?m1 = "appendTo ?k (storedCopy ns waitFlag r) m"
  let ?d1 = "if \<not> inCrdIndex crd r \<and> \<not> hasKey m (kindKey r) then d @ [kindKey r] else d"
  from Cons.prems u
  have rest: "buildDeleteKindOrderedResourcesFrom rs ns crd waitFlag (?m1, ?d1) = Return (m', d')"
    by (simp add: deleteOrderStep_Some)
  have keys1: "Mapping.keys ?m1 = insert ?k (Mapping.keys m)"
    by (simp add: keys_appendTo)
  have step: "insert ''CustomResource'' (Mapping.keys ?m1) =
      insert ''CustomResource''
        (Mapping.keys m \<union> (if inCrdIndex crd r then {} else {kindKey r}))"
    unfolding keys1 by (auto simp: hasKey_keys)
  have "insert ''CustomResource'' (Mapping.keys m') =
      insert ''CustomResource''
        (Mapping.keys ?m1 \<union> {kindKey x |x. x \<in> set rs \<and> \<not> inCrdIndex crd x})"
    by (rule Cons.IH[OF rest])
  also have "\<dots> = insert ''CustomResource'' (Mapping.keys ?m1)
        \<union> {kindKey x |x. x \<in> set rs \<and> \<not> inCrdIndex crd x}"
    by simp
  also have "\<dots> = insert ''CustomResource''
        (Mapping.keys m \<union> (if inCrdIndex crd r then {} else {kindKey r}))
        \<union> {kindKey x |x. x \<in> set rs \<and> \<not> inCrdIndex crd x}"
    unfolding step ..
  also have "\<dots> = insert ''CustomResource''
        (Mapping.keys m \<union> {kindKey x |x. x \<in> set (r # rs) \<and> \<not> inCrdIndex crd x})"
    by auto
  finally show ?case .
qed

text \<open>
  Claim C6, as the code has it. A resource whose key of group, kind and version is in the index is
  stored under its literal kind when a bucket of that name exists at the moment the
  resource is reached, and under \<open>CustomResource\<close> otherwise. The bucket exists when the
  kind is in the kind-order table, or when an earlier resource of the batch that is not
  in the index has this kind.
\<close>

theorem custom_resource_bucket:
  assumes "buildDeleteKindOrderedResources ko (before @ r # after) ns crd waitFlag = Return (m, ks)"
      and "inCrdIndex crd r"
  shows "storedCopy ns waitFlag r \<in>
           set (bucket m
                  (if kindKey r \<in> set (PreOrder ko) \<union> set (PostOrder ko)
                                   \<union> {kindKey x |x. x \<in> set before \<and> \<not> inCrdIndex crd x}
                   then kindKey r else ''CustomResource''))"
proof -
  let ?init = "initResourceKindOrderMap ko"
  let ?known = "set (PreOrder ko) \<union> set (PostOrder ko)
                  \<union> {kindKey x |x. x \<in> set before \<and> \<not> inCrdIndex crd x}"
  from assms(1) obtain d where
    d: "buildDeleteKindOrderedResourcesFrom (before @ r # after) ns crd waitFlag (?init, [])
          = Return (m, d)"
    by (auto simp: build_Return)
  then obtain m0 d0 where
    pre: "buildDeleteKindOrderedResourcesFrom before ns crd waitFlag (?init, []) = Return (m0, d0)"
    and post: "buildDeleteKindOrderedResourcesFrom (r # after) ns crd waitFlag (m0, d0) = Return (m, d)"
    by (auto simp: buildFrom_append split: go.splits)
  from post obtain u where u: "Unstructured r = Some u"
    by (cases "Unstructured r") (simp_all add: deleteOrderStep_None)
  let ?k = "if inCrdIndex crd r \<and> \<not> hasKey m0 (kindKey r) then ''CustomResource'' else kindKey r"
  let ?m1 = "appendTo ?k (storedCopy ns waitFlag r) m0"
  from post u assms(2)
  have rest: "buildDeleteKindOrderedResourcesFrom after ns crd waitFlag (?m1, d0) = Return (m, d)"
    by (simp add: deleteOrderStep_Some)
  have "storedCopy ns waitFlag r \<in> set (bucket ?m1 ?k)"
    by (simp add: bucket_appendTo)
  moreover have "set (bucket ?m1 ?k) \<subseteq> set (bucket m ?k)"
    using buildFrom_buckets[OF rest] by blast
  ultimately have stored: "storedCopy ns waitFlag r \<in> set (bucket m ?k)" by blast
  have "insert ''CustomResource'' (Mapping.keys m0) = insert ''CustomResource'' ?known"
    using buildFrom_keys[OF pre] by (simp add: keys_init)
  then have "kindKey r = ''CustomResource'' \<or> (hasKey m0 (kindKey r) \<longleftrightarrow> kindKey r \<in> ?known)"
    unfolding hasKey_keys by blast
  then have "?k = (if kindKey r \<in> ?known then kindKey r else ''CustomResource'')"
    using assms(2) by auto
  with stored show ?thesis by simp
qed

text \<open>The theorem at an instance that follows an object of the same kind name.\<close>

theorem custom_resource_bucket_witness:
  "inCrdIndex fooIndex fooInstance \<and>
   (\<exists>m ks. buildDeleteKindOrderedResources defaultKindDeleteOrder (fooBatch @ [fooInstance])
              ''ns'' fooIndex False = Return (m, ks) \<and>
            storedCopy ''ns'' False fooInstance \<in> set (bucket m ''Foo''))"
proof -
  have idx: "inCrdIndex fooIndex fooInstance"
    by code_simp
  have "orderedKindsOf (buildDeleteKindOrderedResources defaultKindDeleteOrder
          (fooBatch @ fooInstance # []) ''ns'' fooIndex False)
        = Return (PreOrder defaultKindDeleteOrder @ [''Foo''] @ PostOrder defaultKindDeleteOrder)"
    by code_simp
  then obtain m ks where
    run: "buildDeleteKindOrderedResources defaultKindDeleteOrder (fooBatch @ fooInstance # [])
            ''ns'' fooIndex False = Return (m, ks)"
    by (auto simp: orderedKindsOf_Return)
  have other: "decoded ''other.io'' ''v1'' ''Foo'' ''other-foo'' \<in> set fooBatch"
    by (simp add: fooBatch_def)
  have "kindKey (decoded ''other.io'' ''v1'' ''Foo'' ''other-foo'') = ''Foo''"
    and "\<not> inCrdIndex fooIndex (decoded ''other.io'' ''v1'' ''Foo'' ''other-foo'')"
    by code_simp+
  with other have "''Foo'' \<in> {kindKey x |x. x \<in> set fooBatch \<and> \<not> inCrdIndex fooIndex x}"
    by force
  moreover have "kindKey fooInstance = ''Foo''" by code_simp
  ultimately have "storedCopy ''ns'' False fooInstance \<in> set (bucket m ''Foo'')"
    using custom_resource_bucket[OF run idx] by simp
  with idx run show ?thesis by auto
qed

text \<open>
  The kind \<open>Foo\<close> is not in the default table, the instance is in the index built from
  the batch, and it is stored under \<open>Foo\<close>: the bucket \<open>CustomResource\<close> stays empty.
\<close>

theorem custom_resource_in_a_default_bucket:
  "buildCrdGVKMap fooRuntime (fooBatch @ [fooInstance]) = Return fooIndex \<and>
   inCrdIndex fooIndex fooInstance \<and>
   kindKey fooInstance \<notin> set (PreOrder defaultKindDeleteOrder) \<union> set (PostOrder defaultKindDeleteOrder) \<and>
   manifestsIn (buildDeleteKindOrderedResources defaultKindDeleteOrder (fooBatch @ [fooInstance])
                  ''ns'' fooIndex False) ''CustomResource'' = Return [] \<and>
   manifestsIn (buildDeleteKindOrderedResources defaultKindDeleteOrder (fooBatch @ [fooInstance])
                  ''ns'' fooIndex False) ''Foo'' = Return [''other-foo'', ''foo'']"
  by code_simp

subsection \<open>Manifests that fail to decode\<close>

lemma buildCrdGVKMapFrom_nil:
  "\<exists>r\<in>set rs. GVK r = None \<Longrightarrow>
   buildCrdGVKMapFrom rt rs crdGVKMap = Panic NilPointerDereference"
proof (induction rs arbitrary: crdGVKMap)
  case Nil
  then show ?case by simp
next
  case (Cons r rs)
  show ?case
  proof (cases "GVK r")
    case None
    then show ?thesis by simp
  next
    case (Some gvk)
    with Cons.prems have "\<exists>r\<in>set rs. GVK r = None" by auto
    then have "\<And>acc. buildCrdGVKMapFrom rt rs acc = Panic NilPointerDereference"
      by (rule Cons.IH)
    with Some show ?thesis
      by (simp split: option.splits sum.splits)
  qed
qed

lemma decodeManifests_failure:
  assumes "yamlDecode rt bad = Inl err" and "bad \<in> set manifests"
  shows "decodeManifests rt manifests = Panic NilPointerDereference \<or>
         (\<exists>resources. decodeManifests rt manifests = Return resources \<and>
            (\<exists>r\<in>set resources. GVK r = None \<and> Unstructured r = None \<and> Manifest r = bad))"
  using assms(2)
proof (induction manifests)
  case Nil
  then show ?case by simp
next
  case (Cons manifest manifests)
  show ?case
  proof (cases "decodeToUnstructured rt manifest")
    case (Panic p)
    then show ?thesis by (cases p) simp
  next
    case (Return decodedManifest)
    obtain obj gvk e where d: "decodedManifest = (obj, gvk, e)"
      by (cases decodedManifest)
    show ?thesis
    proof (cases "decodeManifests rt manifests")
      case (Panic p)
      with Return d show ?thesis by (cases p) simp
    next
      case rest: (Return resources)
      show ?thesis
      proof (cases "manifest = bad")
        case True
        with assms(1) have "decodeToUnstructured rt manifest
            = Return (None, None, Some (Wrap err ''error decoding yaml''))"
          by (simp add: decodeToUnstructured_def)
        with Return d have "obj = None" "gvk = None" by simp_all
        with Return d rest True show ?thesis by simp
      next
        case False
        with Cons.prems have "bad \<in> set manifests" by simp
        from Cons.IH[OF this] rest obtain r where
          "r \<in> set resources" "GVK r = None \<and> Unstructured r = None \<and> Manifest r = bad"
          by auto
        with Return d rest show ?thesis by auto
      qed
    qed
  qed
qed

text \<open>
  Claim C4 fails on the code. \<^verbatim>\<open>decodeManifests\<close> keeps a manifest that fails to decode as a
  resource without kind and without object, but \<^verbatim>\<open>buildCrdGVKMap\<close> reads \<^verbatim>\<open>r.GVK.Kind\<close> of
  every resource: with such a manifest anywhere in the batch \<^verbatim>\<open>deleteManifestResources\<close>
  panics before it removes anything.
\<close>

theorem undecodable_manifest_panics:
  assumes "yamlDecode rt bad = Inl err" and "bad \<in> set manifests"
  shows "deleteManifestResources rt manifests targetNS kubernetesApplier kindDeleteOrder waitFlag s
         = (Panic NilPointerDereference, s)"
proof -
  from decodeManifests_failure[OF assms]
  consider "decodeManifests rt manifests = Panic NilPointerDereference"
    | resources where "decodeManifests rt manifests = Return resources"
        "\<exists>r\<in>set resources. GVK r = None"
    by blast
  then show ?thesis
  proof cases
    case 1
    then show ?thesis by (simp add: deleteManifestResources_def)
  next
    case 2
    from 2(2) have "buildCrdGVKMap rt resources = Panic NilPointerDereference"
      unfolding buildCrdGVKMap_def by (rule buildCrdGVKMapFrom_nil)
    with 2(1) show ?thesis by (simp add: deleteManifestResources_def)
  qed
qed

text \<open>The theorem at a batch of three manifests, the second of which is rejected by the decoder.\<close>

theorem undecodable_manifest_panics_witness:
  "yamlDecode fooRuntime ''{'' = Inl (External ''unexpected end of input'') \<and>
   deleteManifestResources fooRuntime [''Pod'', ''{'', ''Service''] ''ns'' acceptingKubectl
     defaultKindDeleteOrder True (start ()) = (Panic NilPointerDereference, start ())"
proof -
  have bad: "yamlDecode fooRuntime ''{'' = Inl (External ''unexpected end of input'')"
    by (simp add: fooRuntime_def)
  have "''{'' \<in> set [''Pod'', ''{'', ''Service'']" by simp
  from undecodable_manifest_panics[OF bad this] bad show ?thesis by simp
qed

text \<open>The same batch without the rejected manifest is removed kind by kind.\<close>

lemma decodable_batch_is_deleted:
  "deleteManifestResources fooRuntime [''Pod'', ''Service''] ''ns'' acceptingKubectl
     defaultKindDeleteOrder True (start ())
   = (Return (), \<lparr>world = (), trace = [EvRemove ''ns'' ''Service'' True None, EvRemove ''ns'' ''Pod'' True None]\<rparr>)"
  by code_simp

subsection \<open>A delete pass\<close>

lemma clearResourcesOf_append:
  "clearResourcesOf dyn ns (xs @ ys) s =
     (case clearResourcesOf dyn ns xs s of
        (Return None, s') \<Rightarrow> clearResourcesOf dyn ns ys s'
      | (Return (Some e), s') \<Rightarrow> (Return (Some e), s')
      | (Panic p, s') \<Rightarrow> (Panic p, s'))"
  by (induction xs arbitrary: s) (auto simp: Let_def split: option.splits prod.splits go.splits)

lemma clearNamespacedResources_flat:
  "clearNamespacedResources dyn ns m kinds s = clearResourcesOf dyn ns (orderedResources m kinds) s"
  by (induction kinds arbitrary: s)
     (auto simp: orderedResources_def clearResourcesOf_append split: option.splits prod.splits go.splits)

lemma clearResourcesOf_ok:
  "clearResourcesOf dyn ns rs s = (Return None, s') \<Longrightarrow>
   trace s' = trace s @ map (deleteEvent ns None) rs"
proof (induction rs arbitrary: s)
  case Nil
  then show ?case by simp
next
  case (Cons r rs)
  from Cons.prems obtain u where u: "Unstructured r = Some u"
    by (cases "Unstructured r") simp_all
  obtain err w' where d: "dynDelete dyn (GVR r) ns (GetName u) (world s) = (err, w')"
    by (cases "dynDelete dyn (GVR r) ns (GetName u) (world s)")
  let ?s1 = "\<lparr>world = w', trace = trace s @ [EvDelete (GVR r) ns (GetName u) err]\<rparr>"
  from Cons.prems u d have err: "err = None"
    by (cases err) simp_all
  with Cons.prems u d have "clearResourcesOf dyn ns rs ?s1 = (Return None, s')"
    by simp
  from Cons.IH[OF this] err u show ?case
    by (simp add: deleteEvent_def)
qed








subsection \<open>The delete set of a namespace\<close>

text \<open>
  Claim C10 fails on the code. The test of line 343 reads the annotation of the object of the
  iteration, but the resource that goes into the delete set holds \<^verbatim>\<open>&u\<close>, and after the
  loop over the listing that is the last item. With a pod of the application followed by
  a pod without the annotation, the delete set holds the pod without the annotation:
  the reconciler deletes it and leaves the pod of the application.
\<close>

theorem delete_set_holds_the_last_item_of_the_listing:
  "buildDeleteKindOrderedNamespaceResources (clusterDyn []) plainMeta [podsGVR] ''app'' ''ns''
     False None defaultKindDeleteOrder (start strayListing)
   = (Inr (appendTo ''Pod''
             \<lparr>Wait = False, Manifest = [], GVR = podsGVR,
              GVK = Some \<lparr>Group = [], Version = ''v1'', Kind = ''Pod''\<rparr>,
              Unstructured = Some (object ''Pod'' ''x'')\<rparr>
             (initResourceKindOrderMap defaultKindDeleteOrder),
           getOrderedKinds defaultKindDeleteOrder []),
      \<lparr>world = strayListing, trace = [EvList podsGVR ''ns'']\<rparr>) \<and>
   Mapping.lookup (GetAnnotations (object ''Pod'' ''x'')) ''kots.io/app-slug'' = None \<and>
   clearNamespaces ''app'' [''ns''] False None defaultKindDeleteOrder (clusterDyn []) plainMeta
     [podsGVR] (start strayListing)
   = (Return None,
      \<lparr>world = [(podsGVR, owned ''Pod'' ''a'')],
       trace = [EvList podsGVR ''ns'', EvDelete podsGVR ''ns'' ''x'' None, EvSleep 20]\<rparr>)"
  by code_simp

subsection \<open>The loop of one namespace\<close>

lemma clearNamespacedResources_empty:
  assumes "Mapping.is_empty m"
  shows "clearNamespacedResources dyn ns m kinds s = (Return None, s)"
proof -
  from assms have "\<And>k. bucket m k = []"
    by (simp add: Mapping.is_empty_def Mapping.lookup_default_def keys_dom_lookup
          split: option.splits)
  then show ?thesis
    by (induction kinds) simp_all
qed

lemma clearNamespaceLoop_list_error:
  assumes "0 \<le> i"
      and "buildDeleteKindOrderedNamespaceResources dyn mt dgvrs appSlug ns isRestore sel ko s
             = (Inl err, s1)"
  shows "clearNamespaceLoop appSlug ns isRestore sel ko dyn mt dgvrs i s = (Return None, s1)"
  using assms by (subst clearNamespaceLoop.simps) simp

lemma clearNamespaceLoop_clean:
  assumes "0 \<le> i"
      and "buildDeleteKindOrderedNamespaceResources dyn mt dgvrs appSlug ns isRestore sel ko s
             = (Inr (m, ks), s1)"
      and "clearNamespacedResources dyn ns m ks s1 = (Return None, s2)"
  shows "clearNamespaceLoop appSlug ns isRestore sel ko dyn mt dgvrs i s = (Return None, s2)"
proof (cases "Mapping.is_empty m")
  case True
  with assms(3) have "s2 = s1" by (simp add: clearNamespacedResources_empty)
  with True assms(1,2) show ?thesis
    by (subst clearNamespaceLoop.simps) simp
next
  case False
  with assms show ?thesis
    by (subst clearNamespaceLoop.simps) simp
qed

lemma clearNamespaceLoop_failed:
  assumes "0 \<le> i"
      and "buildDeleteKindOrderedNamespaceResources dyn mt dgvrs appSlug ns isRestore sel ko s
             = (Inr (m, ks), s1)"
      and "clearNamespacedResources dyn ns m ks s1 = (Return (Some e), s2)"
  shows "clearNamespaceLoop appSlug ns isRestore sel ko dyn mt dgvrs i s =
           (if i = 0 then (Return (Some (failedToClear appSlug ns)), s2)
            else clearNamespaceLoop appSlug ns isRestore sel ko dyn mt dgvrs (i - 1) (Sleep 2 s2))"
proof -
  have "\<not> Mapping.is_empty m"
    using assms(3) by (auto simp: clearNamespacedResources_empty)
  with assms show ?thesis
    by (subst clearNamespaceLoop.simps) simp
qed

lemma clearNamespaces_single:
  "clearNamespaces appSlug [ns] isRestore sel ko dyn mt gvrs s =
     (case clearNamespaceLoop appSlug ns isRestore sel ko dyn mt (deletionGVRsOf gvrs) 60 s of
        (Return None, s') \<Rightarrow> (Return None, Sleep 20 s')
      | (Return (Some e), s') \<Rightarrow> (Return (Some e), s')
      | (Panic p, s') \<Rightarrow> (Panic p, s'))"
  by (simp add: clearNamespaces_def split: prod.splits go.splits option.splits)




subsection \<open>An object that is never deleted\<close>

lemma stuck_listing:
  "map snd (filter (\<lambda>live. fst live = podsGVR) stuckPod) = [owned ''Pod'' ''a'']"
  by (simp add: stuckPod_def)

lemma stuck_items:
  "listedItems plainMeta ''app'' False None podsGVR (owned ''Pod'' ''a'') [owned ''Pod'' ''a'']
     (initResourceKindOrderMap defaultKindDeleteOrder, [])
   = Inr (appendTo ''Pod'' (listedResource plainMeta podsGVR (owned ''Pod'' ''a''))
            (initResourceKindOrderMap defaultKindDeleteOrder), [])"
  by code_simp

lemma stuck_ordered:
  "orderedResources
     (appendTo ''Pod'' (listedResource plainMeta podsGVR (owned ''Pod'' ''a''))
        (initResourceKindOrderMap defaultKindDeleteOrder))
     (getOrderedKinds defaultKindDeleteOrder [])
   = [listedResource plainMeta podsGVR (owned ''Pod'' ''a'')]"
  by code_simp

lemma stuck_list:
  "buildDeleteKindOrderedNamespaceResources (clusterDyn [''a'']) plainMeta [podsGVR] ''app'' ''ns''
     False None defaultKindDeleteOrder \<lparr>world = stuckPod, trace = tr\<rparr>
   = (Inr (appendTo ''Pod'' (listedResource plainMeta podsGVR (owned ''Pod'' ''a''))
             (initResourceKindOrderMap defaultKindDeleteOrder),
           getOrderedKinds defaultKindDeleteOrder []),
      \<lparr>world = stuckPod, trace = tr @ [EvList podsGVR ''ns'']\<rparr>)"
proof -
  have "dynList (clusterDyn [''a'']) podsGVR ''ns'' stuckPod
      = ((Some [owned ''Pod'' ''a''], None), stuckPod)"
    by (simp add: clusterDyn_def stuck_listing)
  then show ?thesis
    by (simp add: buildDeleteKindOrderedNamespaceResources_def stuck_items
          del: listedItems.simps)
qed

lemma stuck_delete:
  "clearNamespacedResources (clusterDyn [''a'']) ''ns''
     (appendTo ''Pod'' (listedResource plainMeta podsGVR (owned ''Pod'' ''a''))
        (initResourceKindOrderMap defaultKindDeleteOrder))
     (getOrderedKinds defaultKindDeleteOrder []) \<lparr>world = stuckPod, trace = tr\<rparr>
   = (Return (Some (External ''forbidden'')),
      \<lparr>world = stuckPod,
       trace = tr @ [EvDelete podsGVR ''ns'' ''a'' (Some (External ''forbidden''))]\<rparr>)"
  unfolding clearNamespacedResources_flat stuck_ordered
  by (simp add: listedResource_def clusterDyn_def owned_def object_def)

lemma stuck_loop:
  "clearNamespaceLoop ''app'' ''ns'' False None defaultKindDeleteOrder (clusterDyn [''a''])
     plainMeta [podsGVR] (int n) \<lparr>world = stuckPod, trace = tr\<rparr>
   = (Return (Some (failedToClear ''app'' ''ns'')),
      \<lparr>world = stuckPod,
       trace = tr @ concat (replicate n (stuckAttempt @ [EvSleep 2])) @ stuckAttempt\<rparr>)"
proof (induction n arbitrary: tr)
  case 0
  have "clearNamespaceLoop ''app'' ''ns'' False None defaultKindDeleteOrder (clusterDyn [''a''])
      plainMeta [podsGVR] 0 \<lparr>world = stuckPod, trace = tr\<rparr>
    = (Return (Some (failedToClear ''app'' ''ns'')),
       \<lparr>world = stuckPod,
        trace = (tr @ [EvList podsGVR ''ns''])
                  @ [EvDelete podsGVR ''ns'' ''a'' (Some (External ''forbidden''))]\<rparr>)"
    using clearNamespaceLoop_failed[OF _ stuck_list stuck_delete, of 0 tr] by simp
  then show ?case by (simp add: stuckAttempt_def)
next
  case (Suc n)
  let ?tr = "tr @ stuckAttempt @ [EvSleep 2]"
  have "clearNamespaceLoop ''app'' ''ns'' False None defaultKindDeleteOrder (clusterDyn [''a''])
      plainMeta [podsGVR] (int (Suc n)) \<lparr>world = stuckPod, trace = tr\<rparr>
    = clearNamespaceLoop ''app'' ''ns'' False None defaultKindDeleteOrder (clusterDyn [''a''])
      plainMeta [podsGVR] (int n) \<lparr>world = stuckPod, trace = ?tr\<rparr>"
    using clearNamespaceLoop_failed[OF _ stuck_list stuck_delete, of "int (Suc n)" tr]
    by (simp add: Sleep_def emit_def stuckAttempt_def)
  also have "\<dots> = (Return (Some (failedToClear ''app'' ''ns'')),
      \<lparr>world = stuckPod,
       trace = ?tr @ concat (replicate n (stuckAttempt @ [EvSleep 2])) @ stuckAttempt\<rparr>)"
    by (rule Suc.IH)
  finally show ?case by simp
qed

lemma listCalls_append: "listCalls (xs @ ys) = listCalls xs + listCalls ys"
  by (simp add: listCalls_def)

lemma listCalls_repeat: "listCalls (concat (replicate n xs)) = n * listCalls xs"
  by (induction n) (simp_all add: listCalls_append, simp add: listCalls_def)

lemma deleteCalls_append: "deleteCalls (xs @ ys) = deleteCalls xs + deleteCalls ys"
  by (simp add: deleteCalls_def)

lemma deleteCalls_repeat: "deleteCalls (concat (replicate n xs)) = n * deleteCalls xs"
  by (induction n) (simp_all add: deleteCalls_append, simp add: deleteCalls_def)

lemma sleepsOf_append: "sleepsOf (xs @ ys) = sleepsOf xs @ sleepsOf ys"
  by (induction xs rule: sleepsOf.induct) simp_all

lemma sleepsOf_repeat: "sleepsOf (concat (replicate n xs)) = concat (replicate n (sleepsOf xs))"
  by (induction n) (simp_all add: sleepsOf_append)

lemma stuck_run:
  "clearNamespaces ''app'' [''ns''] False None defaultKindDeleteOrder (clusterDyn [''a''])
     plainMeta [podsGVR] (start stuckPod)
   = (Return (Some (failedToClear ''app'' ''ns'')),
      \<lparr>world = stuckPod,
       trace = concat (replicate 60 (stuckAttempt @ [EvSleep 2])) @ stuckAttempt\<rparr>)"
proof -
  have gvrs: "deletionGVRsOf [podsGVR] = [podsGVR]" by code_simp
  have "clearNamespaceLoop ''app'' ''ns'' False None defaultKindDeleteOrder (clusterDyn [''a''])
      plainMeta [podsGVR] (int 60) \<lparr>world = stuckPod, trace = []\<rparr>
    = (Return (Some (failedToClear ''app'' ''ns'')),
      \<lparr>world = stuckPod,
       trace = [] @ concat (replicate 60 (stuckAttempt @ [EvSleep 2])) @ stuckAttempt\<rparr>)"
    by (rule stuck_loop)
  then show ?thesis
    by (simp add: clearNamespaces_single gvrs start_def)
qed

text \<open>
  The loop \<^verbatim>\<open>for i := 60; i >= 0; i--\<close> has 61 iterations, with a sleep after each but
  the last: with an object whose deletion fails every time the reconciler lists 61 times,
  attempts the deletion 61 times and sleeps two seconds 60 times before it returns the
  error, without the sleep of twenty seconds.
\<close>

theorem stuck_object_is_tried_sixty_one_times:
  "fst (clearNamespaces ''app'' [''ns''] False None defaultKindDeleteOrder (clusterDyn [''a''])
          plainMeta [podsGVR] (start stuckPod))
     = Return (Some (failedToClear ''app'' ''ns'')) \<and>
   listCalls (trace (snd (clearNamespaces ''app'' [''ns''] False None defaultKindDeleteOrder
     (clusterDyn [''a'']) plainMeta [podsGVR] (start stuckPod)))) = 61 \<and>
   deleteCalls (trace (snd (clearNamespaces ''app'' [''ns''] False None defaultKindDeleteOrder
     (clusterDyn [''a'']) plainMeta [podsGVR] (start stuckPod)))) = 61 \<and>
   sleepsOf (trace (snd (clearNamespaces ''app'' [''ns''] False None defaultKindDeleteOrder
     (clusterDyn [''a'']) plainMeta [podsGVR] (start stuckPod)))) = replicate 60 2"
proof -
  have l: "listCalls [EvSleep 2] = 0" "listCalls stuckAttempt = 1"
    by (simp_all add: listCalls_def stuckAttempt_def)
  have d: "deleteCalls [EvSleep 2] = 0" "deleteCalls stuckAttempt = 1"
    by (simp_all add: deleteCalls_def stuckAttempt_def)
  have z: "sleepsOf stuckAttempt = []"
    by (simp add: stuckAttempt_def)
  have c: "concat (replicate 60 [2::nat]) = replicate 60 2"
    by (simp add: concat_replicate_trivial flip: replicate_append_same)
  show ?thesis
    unfolding stuck_run
    by (simp add: listCalls_append listCalls_repeat deleteCalls_append deleteCalls_repeat
          sleepsOf_append sleepsOf_repeat l d z c)
qed

subsection \<open>The end of the attempts\<close>

lemma clearNamespaceLoop_error_iff:
  "fst (clearNamespaceLoop appSlug ns isRestore sel ko dyn mt dgvrs (int n) s)
     = Return (Some (failedToClear appSlug ns)) \<longleftrightarrow>
   everyAttemptFails appSlug ns isRestore sel ko dyn mt dgvrs n s"
proof (induction n arbitrary: s)
  case 0
  obtain res s1 where b: "buildDeleteKindOrderedNamespaceResources dyn mt dgvrs appSlug ns
      isRestore sel ko s = (res, s1)"
    by (cases "buildDeleteKindOrderedNamespaceResources dyn mt dgvrs appSlug ns isRestore sel ko s")
  show ?case
  proof (cases res)
    case (Inl e)
    with b show ?thesis
      by (simp add: clearNamespaceLoop_list_error[OF _ b[unfolded Inl]])
  next
    case (Inr acc)
    obtain m ks where acc: "acc = (m, ks)" by (cases acc)
    obtain out s2 where c: "clearNamespacedResources dyn ns m ks s1 = (out, s2)"
      by (cases "clearNamespacedResources dyn ns m ks s1")
    note b' = b[unfolded Inr acc]
    show ?thesis
    proof (cases out)
      case (Panic p)
      then have "\<not> Mapping.is_empty m"
        using c by (auto simp: clearNamespacedResources_empty)
      with b' c Panic show ?thesis
        by (subst clearNamespaceLoop.simps) simp
    next
      case (Return e)
      show ?thesis
      proof (cases e)
        case None
        with b' c Return show ?thesis
          by (simp add: clearNamespaceLoop_clean[OF _ b' c[unfolded Return None]])
      next
        case (Some err)
        then have "\<not> Mapping.is_empty m"
          using c Return by (auto simp: clearNamespacedResources_empty)
        with b' c Return Some show ?thesis
          by (subst clearNamespaceLoop.simps) simp
      qed
    qed
  qed
next
  case (Suc n)
  obtain res s1 where b: "buildDeleteKindOrderedNamespaceResources dyn mt dgvrs appSlug ns
      isRestore sel ko s = (res, s1)"
    by (cases "buildDeleteKindOrderedNamespaceResources dyn mt dgvrs appSlug ns isRestore sel ko s")
  show ?case
  proof (cases res)
    case (Inl e)
    with b show ?thesis
      by (simp add: clearNamespaceLoop_list_error[OF _ b[unfolded Inl]])
  next
    case (Inr acc)
    obtain m ks where acc: "acc = (m, ks)" by (cases acc)
    obtain out s2 where c: "clearNamespacedResources dyn ns m ks s1 = (out, s2)"
      by (cases "clearNamespacedResources dyn ns m ks s1")
    note b' = b[unfolded Inr acc]
    show ?thesis
    proof (cases out)
      case (Panic p)
      then have "\<not> Mapping.is_empty m"
        using c by (auto simp: clearNamespacedResources_empty)
      with b' c Panic show ?thesis
        by (subst clearNamespaceLoop.simps) simp
    next
      case (Return e)
      show ?thesis
      proof (cases e)
        case None
        with b' c Return show ?thesis
          by (simp add: clearNamespaceLoop_clean[OF _ b' c[unfolded Return None]])
      next
        case (Some err)
        have "clearNamespaceLoop appSlug ns isRestore sel ko dyn mt dgvrs (int (Suc n)) s
            = clearNamespaceLoop appSlug ns isRestore sel ko dyn mt dgvrs (int n) (Sleep 2 s2)"
          using clearNamespaceLoop_failed[OF _ b' c[unfolded Return Some], of "int (Suc n)"]
          by simp
        with Suc.IH[of "Sleep 2 s2"] b' c Return Some show ?thesis
          by simp
      qed
    qed
  qed
qed


text \<open>
  Claim C3, as the code has it. \<^verbatim>\<open>clearNamespaces\<close> returns the error
  \<open>Failed to clear app ... from namespace ...\<close>, which names the application and the
  namespace, exactly when every one of the 61 attempts fails: each listing returns a
  delete set and each delete pass returns an error. In every other case the loop of the
  namespace is left before the attempts run out.
\<close>

theorem terminal_error_iff_every_attempt_fails:
  "fst (clearNamespaces appSlug [ns] isRestore sel ko dyn mt gvrs s)
     = Return (Some (Errorf (''Failed to clear app '' @ appSlug @ '' from namespace '' @ ns
                              @ [CHR 0x0A]))) \<longleftrightarrow>
   everyAttemptFails appSlug ns isRestore sel ko dyn mt (deletionGVRsOf gvrs) 60 s"
proof -
  have "fst (clearNamespaces appSlug [ns] isRestore sel ko dyn mt gvrs s)
      = Return (Some (failedToClear appSlug ns)) \<longleftrightarrow>
    fst (clearNamespaceLoop appSlug ns isRestore sel ko dyn mt (deletionGVRsOf gvrs) (int 60) s)
      = Return (Some (failedToClear appSlug ns))"
    by (auto simp: clearNamespaces_single split: prod.splits go.splits option.splits)
  then show ?thesis
    unfolding clearNamespaceLoop_error_iff by (simp add: failedToClear_def)
qed

lemma flaky_list:
  "buildDeleteKindOrderedNamespaceResources flakyDyn plainMeta [podsGVR] ''app'' ''ns''
     False None defaultKindDeleteOrder \<lparr>world = (c, stuckPod), trace = tr\<rparr>
   = (Inr (appendTo ''Pod'' (listedResource plainMeta podsGVR (owned ''Pod'' ''a''))
             (initResourceKindOrderMap defaultKindDeleteOrder),
           getOrderedKinds defaultKindDeleteOrder []),
      \<lparr>world = (c, stuckPod), trace = tr @ [EvList podsGVR ''ns'']\<rparr>)"
proof -
  have "dynList flakyDyn podsGVR ''ns'' (c, stuckPod)
      = ((Some [owned ''Pod'' ''a''], None), (c, stuckPod))"
    by (simp add: flakyDyn_def stuck_listing)
  then show ?thesis
    by (simp add: buildDeleteKindOrderedNamespaceResources_def stuck_items
          del: listedItems.simps)
qed

lemma flaky_delete:
  "clearNamespacedResources flakyDyn ''ns''
     (appendTo ''Pod'' (listedResource plainMeta podsGVR (owned ''Pod'' ''a''))
        (initResourceKindOrderMap defaultKindDeleteOrder))
     (getOrderedKinds defaultKindDeleteOrder []) \<lparr>world = (Suc c, stuckPod), trace = tr\<rparr>
   = (Return (Some (External ''forbidden'')),
      \<lparr>world = (c, stuckPod),
       trace = tr @ [EvDelete podsGVR ''ns'' ''a'' (Some (External ''forbidden''))]\<rparr>)"
  unfolding clearNamespacedResources_flat stuck_ordered
  by (simp add: listedResource_def flakyDyn_def owned_def object_def)

lemma flaky_attempts:
  "n < c \<Longrightarrow>
   everyAttemptFails ''app'' ''ns'' False None defaultKindDeleteOrder flakyDyn plainMeta
     [podsGVR] n \<lparr>world = (c, stuckPod), trace = tr\<rparr>"
proof (induction n arbitrary: c tr)
  case 0
  then obtain c' where "c = Suc c'" by (cases c) auto
  then show ?case by (simp add: flaky_list flaky_delete)
next
  case (Suc n)
  then obtain c' where c: "c = Suc c'" and "n < c'" by (cases c) auto
  from Suc.IH[OF this(2)] c show ?case
    by (simp add: flaky_list flaky_delete Sleep_def emit_def)
qed

text \<open>
  The theorem at a client that refuses exactly 61 deletions: every attempt fails, and
  the reconciler returns the error.
\<close>

theorem terminal_error_iff_every_attempt_fails_witness:
  "everyAttemptFails ''app'' ''ns'' False None defaultKindDeleteOrder flakyDyn plainMeta
     (deletionGVRsOf [podsGVR]) 60 (start (61, stuckPod)) \<and>
   fst (clearNamespaces ''app'' [''ns''] False None defaultKindDeleteOrder flakyDyn plainMeta
          [podsGVR] (start (61, stuckPod)))
     = Return (Some (Errorf ''Failed to clear app app from namespace ns\<newline>''))"
proof -
  have gvrs: "deletionGVRsOf [podsGVR] = [podsGVR]" by code_simp
  have fails: "everyAttemptFails ''app'' ''ns'' False None defaultKindDeleteOrder flakyDyn
      plainMeta (deletionGVRsOf [podsGVR]) 60 (start (61, stuckPod))"
    unfolding gvrs start_def by (rule flaky_attempts) simp
  with terminal_error_iff_every_attempt_fails[of "''app''" "''ns''" False None
      defaultKindDeleteOrder flakyDyn plainMeta "[podsGVR]" "start (61, stuckPod)"]
  show ?thesis by simp
qed

text \<open>
  A pod of the application that is listed on every attempt, and the reconciler returns
  nil after one pass and the grace sleep: when the cluster accepts the deletion and the
  pod stays, and when the pod is pending deletion, so that it is listed and never put in
  the delete set. The cluster is as before, the pod would be listed again.
\<close>

theorem listed_object_and_silent_success:
  "clearNamespaces ''app'' [''ns''] False None defaultKindDeleteOrder stickyDyn plainMeta
     [podsGVR] (start stuckPod)
   = (Return None,
      \<lparr>world = stuckPod,
       trace = [EvList podsGVR ''ns'', EvDelete podsGVR ''ns'' ''a'' None, EvSleep 20]\<rparr>) \<and>
   clearNamespaces ''app'' [''ns''] False None defaultKindDeleteOrder (clusterDyn []) plainMeta
     [podsGVR] (start pendingPod)
   = (Return None, \<lparr>world = pendingPod, trace = [EvList podsGVR ''ns'', EvSleep 20]\<rparr>)"
  by code_simp

subsection \<open>The attempts and the sleeps of one namespace\<close>

lemma listedGVRs_trace:
  "listedGVRs dyn mt gvrs appSlug ns isRestore sel acc s = (res, s') \<Longrightarrow>
   sleepsOf (trace s') = sleepsOf (trace s) \<and>
   listCalls (trace s') \<le> listCalls (trace s) + length gvrs"
proof (induction gvrs arbitrary: acc s)
  case Nil
  then show ?case by simp
next
  case (Cons gvr gvrs)
  obtain ul err w' where l: "dynList dyn gvr ns (world s) = ((ul, err), w')"
    by (metis prod.exhaust)
  let ?s = "\<lparr>world = w', trace = trace s @ [EvList gvr ns]\<rparr>"
  have here: "sleepsOf (trace ?s) = sleepsOf (trace s)"
    "listCalls (trace ?s) = listCalls (trace s) + 1"
    by (simp_all add: sleepsOf_append listCalls_append, simp add: listCalls_def)
  show ?case
  proof (cases "\<exists>acc'. listedGVRs dyn mt gvrs appSlug ns isRestore sel acc' ?s = (res, s')")
    case True
    then obtain acc' where
      "listedGVRs dyn mt gvrs appSlug ns isRestore sel acc' ?s = (res, s')" ..
    from Cons.IH[OF this] here show ?thesis by simp
  next
    case False
    then have no: "listedGVRs dyn mt gvrs appSlug ns isRestore sel acc' ?s \<noteq> (res, s')"
      for acc' by blast
    from Cons.prems l no no[of acc] have "s' = ?s"
      by (auto simp: Let_def split: option.splits list.splits sum.splits)
    with here show ?thesis by simp
  qed
qed

lemma build_trace:
  "buildDeleteKindOrderedNamespaceResources dyn mt gvrs appSlug ns isRestore sel ko s = (res, s')
   \<Longrightarrow> sleepsOf (trace s') = sleepsOf (trace s) \<and>
       listCalls (trace s') \<le> listCalls (trace s) + length gvrs"
proof -
  assume b: "buildDeleteKindOrderedNamespaceResources dyn mt gvrs appSlug ns isRestore sel ko s
    = (res, s')"
  obtain r where "listedGVRs dyn mt gvrs appSlug ns isRestore sel
      (initResourceKindOrderMap ko, []) s = (r, s')"
    using b
    by (auto simp: buildDeleteKindOrderedNamespaceResources_def split: prod.splits sum.splits)
  then show ?thesis by (rule listedGVRs_trace)
qed

lemma clearResourcesOf_trace:
  "clearResourcesOf dyn ns rs s = (res, s') \<Longrightarrow>
   sleepsOf (trace s') = sleepsOf (trace s) \<and> listCalls (trace s') = listCalls (trace s)"
proof (induction rs arbitrary: s)
  case Nil
  then show ?case by simp
next
  case (Cons r rs)
  show ?case
  proof (cases "Unstructured r")
    case None
    with Cons.prems show ?thesis by simp
  next
    case (Some u)
    obtain err w' where d: "dynDelete dyn (GVR r) ns (GetName u) (world s) = (err, w')"
      by (metis prod.exhaust)
    let ?s = "\<lparr>world = w', trace = trace s @ [EvDelete (GVR r) ns (GetName u) err]\<rparr>"
    have here: "sleepsOf (trace ?s) = sleepsOf (trace s)"
      "listCalls (trace ?s) = listCalls (trace s)"
      by (simp_all add: sleepsOf_append listCalls_append, simp add: listCalls_def)
    show ?thesis
    proof (cases err)
      case None
      with Cons.prems Some d have "clearResourcesOf dyn ns rs ?s = (res, s')" by simp
      from Cons.IH[OF this] here show ?thesis by simp
    next
      case (Some e)
      with Cons.prems \<open>Unstructured r = Some u\<close> d have "s' = ?s" by simp
      with here show ?thesis by simp
    qed
  qed
qed

lemma clearNamespacedResources_trace:
  "clearNamespacedResources dyn ns m ks s = (res, s') \<Longrightarrow>
   sleepsOf (trace s') = sleepsOf (trace s) \<and> listCalls (trace s') = listCalls (trace s)"
  unfolding clearNamespacedResources_flat by (rule clearResourcesOf_trace)

lemma clearNamespaceLoop_trace:
  "clearNamespaceLoop appSlug ns isRestore sel ko dyn mt dgvrs (int n) s = (res, s') \<Longrightarrow>
   \<exists>k. k \<le> n \<and> (res = Return (Some (failedToClear appSlug ns)) \<longrightarrow> k = n) \<and>
       sleepsOf (trace s') = sleepsOf (trace s) @ replicate k 2 \<and>
       listCalls (trace s') \<le> listCalls (trace s) + (k + 1) * length dgvrs"
proof (induction n arbitrary: s)
  case 0
  obtain b s1 where b: "buildDeleteKindOrderedNamespaceResources dyn mt dgvrs appSlug ns
      isRestore sel ko s = (b, s1)"
    by (metis prod.exhaust)
  note t1 = build_trace[OF b]
  show ?case
  proof (cases b)
    case (Inl e)
    with b 0 have "s' = s1" by simp
    with t1 show ?thesis by simp
  next
    case (Inr mk)
    obtain m ks where mk: "mk = (m, ks)" by (metis prod.exhaust)
    obtain d s2 where d: "clearNamespacedResources dyn ns m ks s1 = (d, s2)"
      by (metis prod.exhaust)
    note t2 = clearNamespacedResources_trace[OF d]
    from 0 b Inr mk d have "s' = s1 \<or> s' = s2"
      by (auto split: if_splits go.splits option.splits)
    with t1 t2 show ?thesis by auto
  qed
next
  case (Suc n)
  obtain b s1 where b: "buildDeleteKindOrderedNamespaceResources dyn mt dgvrs appSlug ns
      isRestore sel ko s = (b, s1)"
    by (metis prod.exhaust)
  note t1 = build_trace[OF b]
  have i: "int (Suc n) \<ge> 0" "int (Suc n) \<noteq> 0" "int (Suc n) - 1 = int n" by simp_all
  show ?case
  proof (cases b)
    case (Inl e)
    with b Suc.prems have "s' = s1" "res = Return None"
      by (subst (asm) clearNamespaceLoop.simps, simp)+
    with t1 show ?thesis by simp
  next
    case (Inr mk)
    obtain m ks where mk: "mk = (m, ks)" by (metis prod.exhaust)
    obtain d s2 where d: "clearNamespacedResources dyn ns m ks s1 = (d, s2)"
      by (metis prod.exhaust)
    note t2 = clearNamespacedResources_trace[OF d]
    show ?thesis
    proof (cases "\<not> Mapping.is_empty m \<and> (\<exists>e. d = Return (Some e))")
      case True
      with Suc.prems b Inr mk d
      have "clearNamespaceLoop appSlug ns isRestore sel ko dyn mt dgvrs (int n) (Sleep 2 s2)
        = (res, s')"
        by (subst (asm) clearNamespaceLoop.simps) (auto simp: i)
      from Suc.IH[OF this] obtain k where k: "k \<le> n"
        "res = Return (Some (failedToClear appSlug ns)) \<longrightarrow> k = n"
        "sleepsOf (trace s') = sleepsOf (trace (Sleep 2 s2)) @ replicate k 2"
        "listCalls (trace s') \<le> listCalls (trace (Sleep 2 s2)) + (k + 1) * length dgvrs"
        by blast
      have z: "sleepsOf (trace (Sleep 2 s2)) = sleepsOf (trace s2) @ [2]"
        "listCalls (trace (Sleep 2 s2)) = listCalls (trace s2)"
        by (simp_all add: Sleep_def emit_def sleepsOf_append listCalls_append,
            simp add: listCalls_def)
      have "sleepsOf (trace s') = sleepsOf (trace s) @ replicate (Suc k) 2"
        using k(3) z(1) t1 t2 by (simp add: replicate_app_Cons_same)
      moreover have "listCalls (trace s') \<le> listCalls (trace s) + (Suc k + 1) * length dgvrs"
        using k(4) z(2) t1 t2 by simp
      ultimately show ?thesis using k(1,2) by (intro exI[of _ "Suc k"]) simp
    next
      case False
      with Suc.prems b Inr mk d have "(s' = s1 \<or> s' = s2) \<and> res \<noteq> Return (Some (failedToClear appSlug ns))"
        by (subst (asm) clearNamespaceLoop.simps)
           (auto simp: i split: if_splits go.splits option.splits)
      with t1 t2 show ?thesis by (intro exI[of _ 0]) auto
    qed
  qed
qed


text \<open>
  Claim C8, as the code has it. For one namespace \<^verbatim>\<open>clearNamespaces\<close> sleeps two seconds
  \<open>k\<close> times, with \<open>k\<close> at most 60, between \<open>k + 1\<close> attempts, at most 61: each attempt
  lists every resource type at most once. The sleep of twenty seconds follows once when
  the call returns nil, and does not follow otherwise. The error
  \<open>Failed to clear app ... from namespace ...\<close> is returned only after the 60 sleeps of
  two seconds, by attempt 61.
\<close>

theorem attempts_and_sleeps_of_a_namespace:
  "\<exists>k. k \<le> 60 \<and>
     sleepsOf (trace (snd (clearNamespaces appSlug [ns] isRestore sel ko dyn mt gvrs s)))
       = sleepsOf (trace s) @ replicate k 2 @
         (if fst (clearNamespaces appSlug [ns] isRestore sel ko dyn mt gvrs s) = Return None
          then [20] else []) \<and>
     listCalls (trace (snd (clearNamespaces appSlug [ns] isRestore sel ko dyn mt gvrs s)))
       \<le> listCalls (trace s) + (k + 1) * length (deletionGVRsOf gvrs) \<and>
     (fst (clearNamespaces appSlug [ns] isRestore sel ko dyn mt gvrs s)
        = Return (Some (failedToClear appSlug ns)) \<longrightarrow> k = 60)"
proof -
  obtain res s' where loop:
    "clearNamespaceLoop appSlug ns isRestore sel ko dyn mt (deletionGVRsOf gvrs) (int 60) s
       = (res, s')"
    by (metis prod.exhaust)
  from clearNamespaceLoop_trace[OF this] obtain k where k: "k \<le> 60"
    "res = Return (Some (failedToClear appSlug ns)) \<longrightarrow> k = 60"
    "sleepsOf (trace s') = sleepsOf (trace s) @ replicate k 2"
    "listCalls (trace s') \<le> listCalls (trace s) + (k + 1) * length (deletionGVRsOf gvrs)"
    by blast
  have z: "sleepsOf (trace (Sleep 20 s')) = sleepsOf (trace s') @ [20]"
    "listCalls (trace (Sleep 20 s')) = listCalls (trace s')"
    by (simp_all add: Sleep_def emit_def sleepsOf_append listCalls_append,
        simp add: listCalls_def)
  from loop have run: "clearNamespaces appSlug [ns] isRestore sel ko dyn mt gvrs s
    = (case res of Return None \<Rightarrow> (Return None, Sleep 20 s')
       | Return (Some e) \<Rightarrow> (Return (Some e), s') | Panic p \<Rightarrow> (Panic p, s'))"
    by (simp add: clearNamespaces_single)
  show ?thesis
  proof (cases res)
    case (Panic p)
    with run k show ?thesis by (intro exI[of _ k]) simp
  next
    case (Return r)
    show ?thesis
    proof (cases r)
      case None
      with Return run k z show ?thesis by (intro exI[of _ k]) simp
    next
      case (Some e)
      with Return run k show ?thesis by (intro exI[of _ k]) simp
    qed
  qed
qed

text \<open>
  The theorem at the pod that the cluster refuses to delete: 60 sleeps of two seconds,
  and no sleep of twenty seconds.
\<close>

theorem attempts_and_sleeps_of_a_namespace_witness:
  "fst (clearNamespaces ''app'' [''ns''] False None defaultKindDeleteOrder (clusterDyn [''a''])
          plainMeta [podsGVR] (start stuckPod))
     = Return (Some (failedToClear ''app'' ''ns'')) \<and>
   (\<exists>k. k \<le> 60 \<and>
      sleepsOf (trace (snd (clearNamespaces ''app'' [''ns''] False None defaultKindDeleteOrder
        (clusterDyn [''a'']) plainMeta [podsGVR] (start stuckPod)))) = replicate k 2 \<and>
      listCalls (trace (snd (clearNamespaces ''app'' [''ns''] False None defaultKindDeleteOrder
        (clusterDyn [''a'']) plainMeta [podsGVR] (start stuckPod)))) \<le> k + 1 \<and>
      k = 60)"
proof -
  have gvrs: "deletionGVRsOf [podsGVR] = [podsGVR]" by code_simp
  have failed: "fst (clearNamespaces ''app'' [''ns''] False None defaultKindDeleteOrder
      (clusterDyn [''a'']) plainMeta [podsGVR] (start stuckPod))
    = Return (Some (failedToClear ''app'' ''ns''))"
    by (simp add: stuck_run)
  from attempts_and_sleeps_of_a_namespace[of "''app''" "''ns''" False None
      defaultKindDeleteOrder "clusterDyn [''a'']" plainMeta "[podsGVR]" "start stuckPod"]
  obtain k where "k \<le> 60"
    "sleepsOf (trace (snd (clearNamespaces ''app'' [''ns''] False None defaultKindDeleteOrder
        (clusterDyn [''a'']) plainMeta [podsGVR] (start stuckPod)))) = replicate k 2"
    "listCalls (trace (snd (clearNamespaces ''app'' [''ns''] False None defaultKindDeleteOrder
        (clusterDyn [''a'']) plainMeta [podsGVR] (start stuckPod)))) \<le> k + 1"
    "k = 60"
    unfolding failed gvrs by (auto simp: start_def listCalls_def)
  with failed show ?thesis by blast
qed

subsection \<open>A restore selector that does not convert\<close>





end
